theory Spec2Isabelle
  imports Main "HOL-Library.AList" "HOL-Library.Sublist" "HOL-Library.Multiset"
begin

section \<open>JavaScript values\<close>

text \<open>
  The server is dynamically typed: request bodies, token payloads, database rows and
  responses are all plain JavaScript values. They are modelled by one datatype. An object
  is an association list in insertion order; a property that is missing reads as
  \<open>JUndefined\<close>. Numbers are integers here; timestamps are integers as well (a point in
  time), which is all the handlers need of them.
\<close>

datatype jv =
    JUndefined
  | JNull
  | JBool bool
  | JNum int
  | JStr string
  | JArr "jv list"
  | JObj "(string \<times> jv) list"

type_synonym obj = "(string \<times> jv) list"

definition fld :: "obj \<Rightarrow> string \<Rightarrow> jv" where
  "fld r k = (case map_of r k of None \<Rightarrow> JUndefined | Some v \<Rightarrow> v)"

text \<open>Property access \<open>v.k\<close> on a value that is known not to be null or undefined.\<close>

fun get_prop :: "jv \<Rightarrow> string \<Rightarrow> jv" where
  "get_prop (JObj r) k = fld r k"
| "get_prop _ k = JUndefined"

fun truthy :: "jv \<Rightarrow> bool" where
  "truthy JUndefined = False"
| "truthy JNull = False"
| "truthy (JBool b) = b"
| "truthy (JNum n) = (n \<noteq> 0)"
| "truthy (JStr s) = (s \<noteq> [])"
| "truthy (JArr _) = True"
| "truthy (JObj _) = True"

definition js_or :: "jv \<Rightarrow> jv \<Rightarrow> jv" where
  "js_or a b = (if truthy a then a else b)"

text \<open>\<open>{...r, k: v}\<close> is \<open>AList.update k v r\<close>. \<open>JSON.stringify\<close> leaves out the
  properties whose value is undefined; that is what a request sent to the database and a
  response sent to the client carry.\<close>

definition json_drop :: "obj \<Rightarrow> obj" where
  "json_drop r = filter (\<lambda>kv. fld r (fst kv) \<noteq> JUndefined) r"

definition json_keys :: "jv \<Rightarrow> string list" where
  "json_keys v = (case v of JObj r \<Rightarrow> remdups (map fst (json_drop r)) | _ \<Rightarrow> [])"

text \<open>\<open>s.includes(pat)\<close> and \<open>s.replace(pat, rep)\<close> with a string pattern (the first
  occurrence only).\<close>

fun js_includes :: "string \<Rightarrow> string \<Rightarrow> bool" where
  "js_includes [] pat = (pat = [])"
| "js_includes (c # cs) pat = (prefix pat (c # cs) \<or> js_includes cs pat)"

fun js_replace :: "string \<Rightarrow> string \<Rightarrow> string \<Rightarrow> string" where
  "js_replace [] pat rep = (if pat = [] then rep else [])"
| "js_replace (c # cs) pat rep =
     (if prefix pat (c # cs) then rep @ drop (length pat) (c # cs)
      else c # js_replace cs pat rep)"

section \<open>The store\<close>

text \<open>
  The hosted database is reached through a client whose calls resolve to a pair of data
  and error. A table is either present with its rows, or every call on it fails with one
  error (the table is absent, the service is down). \<open>embed_fault\<close> is the error of a
  select that embeds \<open>categories\<close> and \<open>post_labels\<close> when the schema cache cannot resolve
  the relationships. The state also records what the middleware does outside the
  database: the tokens sent to the identity authority and the console.
\<close>

datatype dberror = DbError (code: string) (message: string)

type_synonym table = "dberror + obj list"

datatype log_level = LogInfo | LogError

record world =
  users_tbl :: table
  posts_tbl :: table
  post_labels_tbl :: table
  categories_tbl :: "obj list"
  labels_tbl :: "obj list"
  embed_fault :: "dberror option"
  authority_calls :: "string list"
  console :: "(log_level \<times> string) list"

definition console_log :: "string \<Rightarrow> world \<Rightarrow> world" where
  "console_log m w = w\<lparr>console := console w @ [(LogInfo, m)]\<rparr>"

definition console_error :: "string \<Rightarrow> world \<Rightarrow> world" where
  "console_error m w = w\<lparr>console := console w @ [(LogError, m)]\<rparr>"

subsection \<open>The users table\<close>

text \<open>\<open>from('users').select('id').eq('id', v).single()\<close>: the row when exactly one
  matches, and the error \<open>PGRST116\<close> otherwise.\<close>

definition no_single_row :: dberror where
  "no_single_row = DbError ''PGRST116'' ''JSON object requested, multiple (or no) rows returned''"

definition users_select_single :: "jv \<Rightarrow> world \<Rightarrow> jv \<times> dberror option" where
  "users_select_single v w =
     (case users_tbl w of
        Inl e \<Rightarrow> (JNull, Some e)
      | Inr rows \<Rightarrow>
          (case filter (\<lambda>r. fld r ''id'' = v) rows of
             [r] \<Rightarrow> (JObj [(''id'', fld r ''id'')], None)
           | _ \<Rightarrow> (JNull, Some no_single_row)))"

text \<open>Modelled from the spec: the schema of the \<open>users\<close> table is not part of the
  sources. The spec gives a LocalUserRecord a unique id, and calls an insert of an id
  that is already there a unique-id collision; so an insert of such a row fails with the
  database's unique violation and leaves the table as it was.\<close>

definition unique_violation :: dberror where
  "unique_violation = DbError ''23505'' ''duplicate key value violates unique constraint''"

definition users_insert :: "obj \<Rightarrow> world \<Rightarrow> dberror option \<times> world" where
  "users_insert row w =
     (case users_tbl w of
        Inl e \<Rightarrow> (Some e, w)
      | Inr rows \<Rightarrow>
          if fld row ''id'' \<in> set (map (\<lambda>r. fld r ''id'') rows)
          then (Some unique_violation, w)
          else (None, w\<lparr>users_tbl := Inr (rows @ [json_drop row])\<rparr>))"

section \<open>Authentication middleware\<close>

text \<open>
  \<open>jwt_verify\<close> is \<open>jwt.verify(token, JWT_SECRET, {algorithms: ['HS256'], issuer:
  'supabase'})\<close> of the jsonwebtoken library: the decoded payload, or the message of the
  error it throws. \<open>getUser\<close> is \<open>supabase.auth.getUser\<close>, the call to the remote identity
  authority: it resolves to a user and an error, or the promise is rejected.
\<close>

datatype authority_result = Resolved jv jv | Rejected string

record auth_env =
  jwt_verify :: "string \<Rightarrow> string + obj"
  getUser :: "string \<Rightarrow> authority_result"

text \<open>What the middleware reads of a request: \<open>req.cookies['sb-access-token']\<close> and
  \<open>req.headers.authorization\<close>, \<open>None\<close> when missing. A header value reaches the
  middleware without the white space around it, so a header \<open>Authorization\<close> that holds
  the scheme and nothing after it is the value \<open>Bearer\<close>.\<close>

record request =
  cookie_token :: "string option"
  authorization :: "string option"

datatype response = Response (status: nat) (body: jv)

datatype mw_outcome = Respond response | Next "jv option"

definition error_body :: "string \<Rightarrow> jv" where
  "error_body m = JObj [(''error'', JStr m)]"

definition verifySupabaseToken :: "auth_env \<Rightarrow> string \<Rightarrow> jv \<times> jv" where
  "verifySupabaseToken env token =
     (case jwt_verify env token of
        Inr decoded \<Rightarrow> (JObj decoded, JNull)
      | Inl msg \<Rightarrow> (JNull, JStr msg))"

text \<open>\<open>req.cookies['sb-access-token'] || req.headers.authorization?.replace('Bearer ', '')\<close>:
  \<open>None\<close> is undefined.\<close>

definition access_token :: "request \<Rightarrow> string option" where
  "access_token req =
     (case cookie_token req of
        Some (c # cs) \<Rightarrow> Some (c # cs)
      | _ \<Rightarrow> map_option (\<lambda>h. js_replace h ''Bearer '' '''') (authorization req))"

text \<open>The name of a new user: \<open>user.user_metadata?.full_name || user.user_metadata?.name ||
  user.email.split('@')[0]\<close>. The last alternative throws a TypeError when \<open>email\<close> is
  not a string.\<close>

definition derive_name :: "jv \<Rightarrow> jv option" where
  "derive_name user =
     (let full_name = get_prop (get_prop user ''user_metadata'') ''full_name'';
          name = get_prop (get_prop user ''user_metadata'') ''name''
      in if truthy full_name then Some full_name
         else if truthy name then Some name
         else (case get_prop user ''email'' of
                 JStr e \<Rightarrow> Some (JStr (takeWhile (\<lambda>c. c \<noteq> CHR ''@'') e))
               | _ \<Rightarrow> None))"

definition new_user_row :: "jv \<Rightarrow> jv \<Rightarrow> jv \<Rightarrow> obj" where
  "new_user_row now user name =
     [(''id'', get_prop user ''id''),
      (''email'', get_prop user ''email''),
      (''name'', name),
      (''email_verified'', JBool (truthy (get_prop user ''email_confirmed_at''))),
      (''created_at'', js_or (get_prop user ''created_at'') now)]"

definition ensureUserExists :: "jv \<Rightarrow> jv \<Rightarrow> world \<Rightarrow> world" where
  "ensureUserExists now user w =
     (case users_select_single (get_prop user ''id'') w of
        (existingUser, Some fetchError) \<Rightarrow>
          if code fetchError = ''PGRST116'' then
            (case derive_name user of
               None \<Rightarrow> console_error ''Error ensuring user exists:'' w
             | Some name \<Rightarrow>
                 (case users_insert (new_user_row now user name) w of
                    (Some insertError, w') \<Rightarrow> console_error ''Error creating user in database:'' w'
                  | (None, w') \<Rightarrow> console_log ''Created new user in database:'' w'))
          else w
      | (existingUser, None) \<Rightarrow> w)"

definition jwt_identity :: "jv \<Rightarrow> jv" where
  "jwt_identity jwtUser =
     JObj [(''id'', get_prop jwtUser ''sub''),
           (''email'', get_prop jwtUser ''email''),
           (''user_metadata'', js_or (get_prop jwtUser ''user_metadata'') (JObj [])),
           (''app_metadata'', js_or (get_prop jwtUser ''app_metadata'') (JObj [])),
           (''created_at'', get_prop jwtUser ''created_at''),
           (''email_confirmed_at'', get_prop jwtUser ''email_confirmed_at'')]"

definition call_authority :: "string \<Rightarrow> world \<Rightarrow> world" where
  "call_authority token w = w\<lparr>authority_calls := authority_calls w @ [token]\<rparr>"

definition authenticateUser :: "auth_env \<Rightarrow> jv \<Rightarrow> request \<Rightarrow> world \<Rightarrow> mw_outcome \<times> world" where
  "authenticateUser env now req w =
     (case access_token req of
        None \<Rightarrow> (Respond (Response 401 (error_body ''Access token required'')), w)
      | Some [] \<Rightarrow> (Respond (Response 401 (error_body ''Access token required'')), w)
      | Some (c # cs) \<Rightarrow>
          (let accessToken = c # cs;
               (jwtUser, jwtError) = verifySupabaseToken env accessToken
           in if truthy jwtUser \<and> \<not> truthy jwtError
              then (let user = jwt_identity jwtUser
                    in (Next (Some user), ensureUserExists now user w))
              else
                (case getUser env accessToken of
                   Rejected msg \<Rightarrow>
                     (Respond (Response 500 (error_body ''Internal server error'')),
                      console_error ''Auth middleware error:'' (call_authority accessToken w))
                 | Resolved user err \<Rightarrow>
                     if truthy err \<or> \<not> truthy user
                     then (Respond (Response 401 (error_body ''Invalid or expired token'')),
                           call_authority accessToken w)
                     else (Next (Some user),
                           ensureUserExists now user (call_authority accessToken w)))))"

definition optionalAuth :: "auth_env \<Rightarrow> jv \<Rightarrow> request \<Rightarrow> world \<Rightarrow> mw_outcome \<times> world" where
  "optionalAuth env now req w =
     (case access_token req of
        None \<Rightarrow> (Next None, w)
      | Some [] \<Rightarrow> (Next None, w)
      | Some (c # cs) \<Rightarrow>
          (let accessToken = c # cs;
               (jwtUser, jwtError) = verifySupabaseToken env accessToken
           in if truthy jwtUser \<and> \<not> truthy jwtError
              then (let user = jwt_identity jwtUser
                    in (Next (Some user), ensureUserExists now user w))
              else
                (case getUser env accessToken of
                   Rejected msg \<Rightarrow>
                     (Next None,
                      console_error ''Optional auth middleware error:''
                        (call_authority accessToken w))
                 | Resolved user err \<Rightarrow>
                     if \<not> truthy err \<and> truthy user
                     then (Next (Some user),
                           ensureUserExists now user (call_authority accessToken w))
                     else (Next None, call_authority accessToken w))))"

section \<open>The notes table\<close>

text \<open>
  What the handlers leave to the platform is a parameter of the model:
  \<^item> \<open>parseInt\<close> is JavaScript's, with \<open>None\<close> for NaN;
  \<^item> \<open>category_eq c\<close> is the database's test \<open>category_id = c\<close> for the text \<open>c\<close> of the
    query string, and \<open>search_match s\<close> its test
    \<open>title ILIKE %s% OR content ILIKE %s%\<close>;
  \<^item> \<open>range_check from to\<close> is the error, if any, with which the database refuses the
    row range \<open>from..to\<close>. A range it accepts selects the rows at these positions;
  \<^item> \<open>positive v\<close> is JavaScript's \<open>v > 0\<close> for a value that is not a number (the
    comparison first converts it to one);
  \<^item> \<open>error_text\<close> is the message the JavaScript engine gives a TypeError.
\<close>

text \<open>The TypeErrors of the handlers: reading a property of null or undefined, and
  calling what is not a function.\<close>

datatype type_error = ReadOf jv string | NotAFunction string

record externals =
  parseInt :: "string \<Rightarrow> int option"
  category_eq :: "string \<Rightarrow> obj \<Rightarrow> bool"
  search_match :: "string \<Rightarrow> obj \<Rightarrow> bool"
  range_check :: "int \<Rightarrow> int \<Rightarrow> dberror option"
  positive :: "jv \<Rightarrow> bool"
  error_text :: "type_error \<Rightarrow> string"

text \<open>The query string of \<open>GET /api/notes\<close>. \<open>q_page\<close> and \<open>q_limit\<close> are the numbers
  \<open>parseInt(page)\<close> and \<open>parseInt(limit)\<close> (1 and 12 when the parameter is missing); a
  request in which one of them is not a number is outside the model.\<close>

record query =
  q_category :: "string option"
  q_labels :: "string option"
  q_search :: "string option"
  q_drafts :: "string option"
  q_visibility :: "string option"
  q_page :: int
  q_limit :: int

definition owned_by :: "string \<Rightarrow> obj \<Rightarrow> bool" where
  "owned_by userId r = (fld r ''user_id'' = JStr userId)"

definition has_id :: "int \<Rightarrow> obj \<Rightarrow> bool" where
  "has_id nid r = (fld r ''id'' = JNum nid)"

definition created_ts :: "obj \<Rightarrow> int" where
  "created_ts r = (case fld r ''created_at'' of JNum n \<Rightarrow> n | _ \<Rightarrow> 0)"

text \<open>\<open>.order('created_at', {ascending: false})\<close>\<close>

definition order_created_desc :: "obj list \<Rightarrow> obj list" where
  "order_created_desc rows = sort_key (\<lambda>r. - created_ts r) rows"

definition pick :: "string list \<Rightarrow> obj \<Rightarrow> obj" where
  "pick cols r = filter (\<lambda>kv. fst kv \<in> set cols) r"

text \<open>The embedded resources of a select:
  \<open>category:categories(id, name, color, icon)\<close> and
  \<open>post_labels(label:labels(id, name, color))\<close>.\<close>

definition embed_category :: "world \<Rightarrow> obj \<Rightarrow> jv" where
  "embed_category w post =
     (case filter (\<lambda>c. fld c ''id'' = fld post ''category_id'') (categories_tbl w) of
        [] \<Rightarrow> JNull
      | c # _ \<Rightarrow> JObj (pick [''id'', ''name'', ''color'', ''icon''] c))"

definition embed_label :: "world \<Rightarrow> obj \<Rightarrow> jv" where
  "embed_label w pl =
     JObj [(''label'',
            (case filter (\<lambda>l. fld l ''id'' = fld pl ''label_id'') (labels_tbl w) of
               [] \<Rightarrow> JNull
             | l # _ \<Rightarrow> JObj (pick [''id'', ''name'', ''color''] l)))]"

definition embed_post :: "obj list \<Rightarrow> world \<Rightarrow> obj \<Rightarrow> obj" where
  "embed_post pls w post =
     AList.update ''post_labels''
       (JArr (map (embed_label w) (filter (\<lambda>pl. fld pl ''post_id'' = fld post ''id'') pls)))
       (AList.update ''category'' (embed_category w post) post)"

definition select_embedded :: "world \<Rightarrow> obj list \<Rightarrow> dberror + obj list" where
  "select_embedded w rows =
     (case embed_fault w of
        Some e \<Rightarrow> Inl e
      | None \<Rightarrow>
          (case post_labels_tbl w of
             Inl e \<Rightarrow> Inl e
           | Inr pls \<Rightarrow> Inr (map (embed_post pls w) rows)))"

text \<open>\<open>.range(from, to)\<close> on the ordered rows, then the embedding. The relationships are
  resolved before any row is read, so their error comes first.\<close>

definition select_page :: "externals \<Rightarrow> world \<Rightarrow> int \<Rightarrow> int \<Rightarrow> obj list \<Rightarrow> dberror + obj list" where
  "select_page ext w from to rows =
     (case embed_fault w of
        Some e \<Rightarrow> Inl e
      | None \<Rightarrow>
          (case range_check ext from to of
             Some e \<Rightarrow> Inl e
           | None \<Rightarrow> select_embedded w (take (nat (to - from + 1)) (drop (nat from) rows))))"

text \<open>\<open>.single()\<close>\<close>

definition single :: "dberror + obj list \<Rightarrow> dberror + obj" where
  "single res =
     (case res of
        Inl e \<Rightarrow> Inl e
      | Inr [r] \<Rightarrow> Inr r
      | Inr _ \<Rightarrow> Inl no_single_row)"

subsection \<open>The note transformer\<close>

text \<open>\<open>post.post_labels?.map(pl => pl.label) || []\<close>, for a post whose \<open>post_labels\<close> is
  an array or missing.\<close>

definition labels_of :: "obj \<Rightarrow> jv" where
  "labels_of post =
     (case fld post ''post_labels'' of
        JArr pls \<Rightarrow> JArr (map (\<lambda>pl. get_prop pl ''label'') pls)
      | _ \<Rightarrow> JArr [])"

definition display_date :: "obj \<Rightarrow> jv" where
  "display_date post =
     (if truthy (fld post ''is_updated'') then fld post ''updated_at'' else fld post ''created_at'')"

definition date_type :: "obj \<Rightarrow> jv" where
  "date_type post = JStr (if truthy (fld post ''is_updated'') then ''updated'' else ''created'')"

text \<open>The single-note, public, create and update views:
  \<open>{...post, labels, display_date, date_type}\<close>.\<close>

definition transform_view :: "obj \<Rightarrow> obj" where
  "transform_view post =
     AList.update ''date_type'' (date_type post)
       (AList.update ''display_date'' (display_date post)
         (AList.update ''labels'' (labels_of post) post))"

text \<open>The list view adds \<open>encrypted_content: undefined\<close>.\<close>

definition transform_list :: "obj \<Rightarrow> obj" where
  "transform_list post = AList.update ''encrypted_content'' JUndefined (transform_view post)"

text \<open>The list view of the flat query:
  \<open>{...post, labels: [], category: null, display_date, date_type, encrypted_content: undefined}\<close>.\<close>

definition simple_transform :: "obj \<Rightarrow> obj" where
  "simple_transform post =
     AList.update ''encrypted_content'' JUndefined
       (AList.update ''date_type'' (date_type post)
         (AList.update ''display_date'' (display_date post)
           (AList.update ''category'' JNull
             (AList.update ''labels'' (JArr []) post))))"

subsection \<open>Filters of the listing\<close>

definition drafts_filter :: "query \<Rightarrow> obj list \<Rightarrow> obj list" where
  "drafts_filter q rows =
     (if q_drafts q = Some ''true'' then filter (\<lambda>r. fld r ''is_draft'' = JBool True) rows
      else if q_drafts q = Some ''false'' then filter (\<lambda>r. fld r ''is_draft'' = JBool False) rows
      else rows)"

definition visibility_filter :: "query \<Rightarrow> obj list \<Rightarrow> obj list" where
  "visibility_filter q rows =
     (if q_visibility q = Some ''public'' then filter (\<lambda>r. fld r ''is_public'' = JBool True) rows
      else if q_visibility q = Some ''private''
      then filter (\<lambda>r. fld r ''is_public'' = JBool False) rows
      else rows)"

definition category_filter :: "externals \<Rightarrow> query \<Rightarrow> obj list \<Rightarrow> obj list" where
  "category_filter ext q rows =
     (case q_category q of
        Some (c # cs) \<Rightarrow> filter (category_eq ext (c # cs)) rows
      | _ \<Rightarrow> rows)"

definition search_filter :: "externals \<Rightarrow> query \<Rightarrow> obj list \<Rightarrow> obj list" where
  "search_filter ext q rows =
     (case q_search q of
        Some (c # cs) \<Rightarrow> filter (search_match ext (c # cs)) rows
      | _ \<Rightarrow> rows)"

text \<open>\<open>labels.split(',')\<close>\<close>

fun split_on :: "char \<Rightarrow> string \<Rightarrow> string list" where
  "split_on sep [] = [[]]"
| "split_on sep (c # cs) =
     (if c = sep then [] # split_on sep cs
      else (case split_on sep cs of
              [] \<Rightarrow> [[c]]
            | s # ss \<Rightarrow> (c # s) # ss))"

text \<open>\<open>labelIds.includes(label.id)\<close>\<close>

definition id_included :: "int option list \<Rightarrow> jv \<Rightarrow> bool" where
  "id_included labelIds v = (case v of JNum n \<Rightarrow> Some n \<in> set labelIds | _ \<Rightarrow> False)"

text \<open>\<open>post.labels.some(label => labelIds.includes(label.id))\<close>: \<open>label.id\<close> throws a
  TypeError for a label that is null (an association whose label row is gone) or
  undefined.\<close>

fun some_label :: "int option list \<Rightarrow> jv list \<Rightarrow> type_error + bool" where
  "some_label labelIds [] = Inr False"
| "some_label labelIds (l # ls) =
     (if l = JNull \<or> l = JUndefined then Inl (ReadOf l ''id'')
      else if id_included labelIds (get_prop l ''id'') then Inr True
      else some_label labelIds ls)"

fun filter_by_labels :: "int option list \<Rightarrow> obj list \<Rightarrow> type_error + obj list" where
  "filter_by_labels labelIds [] = Inr []"
| "filter_by_labels labelIds (p # ps) =
     (case some_label labelIds (case fld p ''labels'' of JArr ls \<Rightarrow> ls | _ \<Rightarrow> []) of
        Inl err \<Rightarrow> Inl err
      | Inr keep \<Rightarrow>
          (case filter_by_labels labelIds ps of
             Inl err \<Rightarrow> Inl err
           | Inr rest \<Rightarrow> Inr (if keep then p # rest else rest)))"

definition label_filter :: "externals \<Rightarrow> query \<Rightarrow> obj list \<Rightarrow> type_error + obj list" where
  "label_filter ext q posts =
     (case q_labels q of
        Some (c # cs) \<Rightarrow>
          filter_by_labels (map (parseInt ext) (split_on CHR '','' (c # cs))) posts
      | _ \<Rightarrow> Inr posts)"

subsection \<open>Pagination metadata\<close>

text \<open>\<open>Math.ceil(n / limit)\<close> for a count \<open>n\<close>: a division by zero gives Infinity, or NaN
  when \<open>n\<close> is zero too. Neither has a JSON form: \<open>res.json\<close> writes them as null.\<close>

datatype jsnum = Fin int | Infinity | NaN

definition ceil_div :: "nat \<Rightarrow> int \<Rightarrow> jsnum" where
  "ceil_div n limit =
     (if limit = 0 then (if n = 0 then NaN else Infinity)
      else Fin (- ((- int n) div limit)))"

fun less_num :: "int \<Rightarrow> jsnum \<Rightarrow> bool" where
  "less_num p (Fin n) = (p < n)"
| "less_num p Infinity = True"
| "less_num p NaN = False"

fun num_json :: "jsnum \<Rightarrow> jv" where
  "num_json (Fin n) = JNum n"
| "num_json Infinity = JNull"
| "num_json NaN = JNull"

definition pagination :: "jv \<Rightarrow> jv \<Rightarrow> jv \<Rightarrow> jv \<Rightarrow> bool \<Rightarrow> bool \<Rightarrow> jv" where
  "pagination currentPage totalPages totalCount limit hasNextPage hasPrevPage =
     JObj [(''currentPage'', currentPage),
           (''totalPages'', totalPages),
           (''totalCount'', totalCount),
           (''limit'', limit),
           (''hasNextPage'', JBool hasNextPage),
           (''hasPrevPage'', JBool hasPrevPage)]"

definition page_body :: "obj list \<Rightarrow> jv \<Rightarrow> jv" where
  "page_body items pg = JObj [(''data'', JArr (map JObj items)), (''pagination'', pg)]"

text \<open>Reading a response: the items of its \<open>data\<close> array and a field of its
  \<open>pagination\<close> object.\<close>

definition items_of :: "response \<Rightarrow> jv list" where
  "items_of r = (case get_prop (body r) ''data'' of JArr xs \<Rightarrow> xs | _ \<Rightarrow> [])"

definition page_field :: "response \<Rightarrow> string \<Rightarrow> jv" where
  "page_field r k = get_prop (get_prop (body r) ''pagination'') k"

text \<open>A column is populated when it holds a value.\<close>

definition populated :: "jv \<Rightarrow> bool" where
  "populated v = (v \<noteq> JNull \<and> v \<noteq> JUndefined)"

section \<open>The handlers\<close>

text \<open>Every handler runs behind \<open>authenticateUser\<close>; \<open>userId\<close> is \<open>req.user.id\<close>. A handler
  answers 500 with the message of whatever it throws. A note id in the path of a request
  (\<open>req.params.id\<close>) is taken as the number it denotes. A handler runs against the store
  as one step: the store does not change between two of its database calls.\<close>

text \<open>The joined query of the listing: the notes of the owner, filtered, newest first,
  one page of them, with their category and labels.\<close>

definition joined_query :: "externals \<Rightarrow> world \<Rightarrow> string \<Rightarrow> query \<Rightarrow> obj list \<Rightarrow> dberror + obj list" where
  "joined_query ext w userId q rows =
     (let offset = (q_page q - 1) * q_limit q
      in select_page ext w offset (offset + q_limit q - 1)
           (order_created_desc
              (search_filter ext q
                 (category_filter ext q
                    (visibility_filter q
                       (drafts_filter q (filter (owned_by userId) rows)))))))"

definition get_notes :: "externals \<Rightarrow> world \<Rightarrow> string \<Rightarrow> query \<Rightarrow> response" where
  "get_notes ext w userId q =
     (let pageNum = q_page q;
          limitNum = q_limit q
      in case posts_tbl w of
           Inl checkError \<Rightarrow>
             if js_includes (message checkError) ''Could not find the table''
             then Response 200
                    (page_body []
                       (pagination (JNum 1) (JNum 0) (JNum 0) (JNum limitNum) False False))
             else Response 500 (error_body (message checkError))
         | Inr rows \<Rightarrow>
             (let count = length (filter (owned_by userId) rows)
              in case joined_query ext w userId q rows of
                   Inl error \<Rightarrow>
                     if js_includes (message error) ''Could not find a relationship''
                     then
                       (let simpleTransformed =
                              map simple_transform
                                (order_created_desc (filter (owned_by userId) rows));
                            totalPages = ceil_div (length simpleTransformed) limitNum
                        in Response 200
                             (page_body simpleTransformed
                                (pagination (JNum pageNum) (num_json totalPages)
                                   (JNum (int (length simpleTransformed))) (JNum limitNum)
                                   (less_num pageNum totalPages) (pageNum > 1))))
                     else Response 500 (error_body (message error))
                 | Inr data \<Rightarrow>
                     (case label_filter ext q (map transform_list data) of
                        Inl err \<Rightarrow> Response 500 (error_body (error_text ext err))
                      | Inr filteredData \<Rightarrow>
                          (let totalCount = (if count \<noteq> 0 then count else length filteredData);
                               totalPages = ceil_div totalCount limitNum
                           in Response 200
                                (page_body filteredData
                                   (pagination (JNum pageNum) (num_json totalPages)
                                      (JNum (int totalCount)) (JNum limitNum)
                                      (less_num pageNum totalPages) (pageNum > 1)))))))"

text \<open>\<open>GET /api/notes/:id\<close>\<close>

definition get_note :: "world \<Rightarrow> string \<Rightarrow> int \<Rightarrow> response" where
  "get_note w userId nid =
     (case posts_tbl w of
        Inl e \<Rightarrow> Response 404 (error_body ''Note not found or access denied'')
      | Inr rows \<Rightarrow>
          (case single (select_embedded w
                          (filter (\<lambda>r. has_id nid r \<and> owned_by userId r) rows)) of
             Inl e \<Rightarrow> Response 404 (error_body ''Note not found or access denied'')
           | Inr d \<Rightarrow> Response 200 (JObj (transform_view d))))"

text \<open>\<open>GET /api/public/:token\<close> selects the columns \<open>id, title, content, is_encrypted,
  created_at, updated_at\<close> and the two embedded resources.\<close>

definition public_columns :: "string list" where
  "public_columns =
     [''id'', ''title'', ''content'', ''is_encrypted'', ''created_at'', ''updated_at'',
      ''category'', ''post_labels'']"

definition public_note :: "world \<Rightarrow> string \<Rightarrow> response" where
  "public_note w token =
     (case posts_tbl w of
        Inl e \<Rightarrow> Response 404 (error_body ''Public note not found'')
      | Inr rows \<Rightarrow>
          (case single (select_embedded w
                          (filter (\<lambda>r. fld r ''public_share_token'' = JStr token
                                       \<and> fld r ''is_public'' = JBool True) rows)) of
             Inl e \<Rightarrow> Response 404 (error_body ''Public note not found'')
           | Inr d \<Rightarrow> Response 200 (JObj (transform_view (pick public_columns d)))))"

subsection \<open>Writes\<close>

text \<open>\<open>from('posts').update(patch).eq(...).select()\<close>: the patch is sent as JSON, so a
  property that is undefined is not part of it and its column keeps its value. The call
  resolves to the rows it changed.\<close>

definition apply_patch :: "obj \<Rightarrow> obj \<Rightarrow> obj" where
  "apply_patch patch row = fold (\<lambda>kv r. AList.update (fst kv) (snd kv) r) (json_drop patch) row"

definition posts_update :: "(obj \<Rightarrow> bool) \<Rightarrow> obj \<Rightarrow> world \<Rightarrow> (dberror + obj list) \<times> world" where
  "posts_update sel patch w =
     (case posts_tbl w of
        Inl e \<Rightarrow> (Inl e, w)
      | Inr rows \<Rightarrow>
          (Inr (map (apply_patch patch) (filter sel rows)),
           w\<lparr>posts_tbl := Inr (map (\<lambda>r. if sel r then apply_patch patch r else r) rows)\<rparr>))"

definition posts_delete :: "(obj \<Rightarrow> bool) \<Rightarrow> world \<Rightarrow> dberror option \<times> world" where
  "posts_delete sel w =
     (case posts_tbl w of
        Inl e \<Rightarrow> (Some e, w)
      | Inr rows \<Rightarrow> (None, w\<lparr>posts_tbl := Inr (filter (\<lambda>r. \<not> sel r) rows)\<rparr>))"

text \<open>Modelled from the spec: the schema of the \<open>posts\<close> table is not part of the
  sources. A new row gets its id from the database (\<open>fresh\<close>), and the columns the insert
  leaves out get the values the spec gives a note that was never edited: the created
  timestamp is the time of the insert and the updated flag is false.\<close>

definition posts_insert :: "int \<Rightarrow> jv \<Rightarrow> obj \<Rightarrow> world \<Rightarrow> (dberror + obj) \<times> world" where
  "posts_insert fresh now row w =
     (case posts_tbl w of
        Inl e \<Rightarrow> (Inl e, w)
      | Inr rows \<Rightarrow>
          (let stored = apply_patch row
                 [(''id'', JNum fresh), (''created_at'', now), (''is_updated'', JBool False)]
           in (Inr stored, w\<lparr>posts_tbl := Inr (rows @ [stored])\<rparr>)))"

definition post_labels_delete :: "int \<Rightarrow> world \<Rightarrow> world" where
  "post_labels_delete nid w =
     (case post_labels_tbl w of
        Inl e \<Rightarrow> w
      | Inr pls \<Rightarrow> w\<lparr>post_labels_tbl := Inr (filter (\<lambda>pl. fld pl ''post_id'' \<noteq> JNum nid) pls)\<rparr>)"

definition post_labels_insert :: "obj list \<Rightarrow> world \<Rightarrow> dberror option \<times> world" where
  "post_labels_insert labelInserts w =
     (case post_labels_tbl w of
        Inl e \<Rightarrow> (Some e, w)
      | Inr pls \<Rightarrow> (None, w\<lparr>post_labels_tbl := Inr (pls @ labelInserts)\<rparr>))"

definition labelInserts :: "jv \<Rightarrow> jv list \<Rightarrow> obj list" where
  "labelInserts post_id label_ids =
     map (\<lambda>labelId. [(''post_id'', post_id), (''label_id'', labelId)]) label_ids"

text \<open>\<open>label_ids.length > 0\<close> followed by \<open>label_ids.map(...)\<close>: the rows to insert, or
  the TypeError. Null and undefined have no \<open>length\<close> to read. The length of a string is
  positive unless the string is empty, a number and a boolean have none, and the
  \<open>length\<close> of an object is whatever its property of that name holds, compared with 0 as
  JavaScript compares; none of them has a function \<open>map\<close>.\<close>

definition length_positive :: "externals \<Rightarrow> jv \<Rightarrow> bool" where
  "length_positive ext v = (case v of JNum n \<Rightarrow> n > 0 | _ \<Rightarrow> positive ext v)"

fun label_rows :: "externals \<Rightarrow> jv \<Rightarrow> jv \<Rightarrow> type_error + obj list" where
  "label_rows ext post_id (JArr ids) = Inr (labelInserts post_id ids)"
| "label_rows ext post_id JNull = Inl (ReadOf JNull ''length'')"
| "label_rows ext post_id JUndefined = Inl (ReadOf JUndefined ''length'')"
| "label_rows ext post_id (JStr s) =
     (if s = [] then Inr [] else Inl (NotAFunction ''label_ids.map''))"
| "label_rows ext post_id (JObj r) =
     (if length_positive ext (fld r ''length'') then Inl (NotAFunction ''label_ids.map'')
      else Inr [])"
| "label_rows ext post_id (JNum n) = Inr []"
| "label_rows ext post_id (JBool b) = Inr []"

text \<open>The end of \<open>POST /api/notes\<close> and \<open>PUT /api/notes/:id\<close>: fetch the complete post
  again and answer with its view.\<close>

definition refetch :: "nat \<Rightarrow> jv \<Rightarrow> world \<Rightarrow> response" where
  "refetch ok post_id w =
     (case posts_tbl w of
        Inl e \<Rightarrow> Response 500 (error_body (message e))
      | Inr rows \<Rightarrow>
          (case single (select_embedded w (filter (\<lambda>r. fld r ''id'' = post_id) rows)) of
             Inl fetchError \<Rightarrow> Response 500 (error_body (message fetchError))
           | Inr completePost \<Rightarrow> Response ok (JObj (transform_view completePost))))"

text \<open>A parameter of a request body with a default, as in \<open>is_draft = false\<close>.\<close>

definition with_default :: "jv \<Rightarrow> jv \<Rightarrow> jv" where
  "with_default v d = (if v = JUndefined then d else v)"

text \<open>\<open>POST /api/notes\<close>. \<open>rand\<close> is \<open>crypto.randomBytes(32).toString('hex')\<close>, \<open>now\<close> is
  \<open>new Date()\<close>.\<close>

definition create_row :: "string \<Rightarrow> jv \<Rightarrow> string \<Rightarrow> obj \<Rightarrow> obj" where
  "create_row userId now rand reqbody =
     (let is_draft = with_default (fld reqbody ''is_draft'') (JBool False);
          is_public = with_default (fld reqbody ''is_public'') (JBool False);
          is_encrypted = with_default (fld reqbody ''is_encrypted'') (JBool False);
          public_share_token = (if truthy is_public then JStr rand else JNull)
      in [(''title'', fld reqbody ''title''),
          (''content'', if truthy is_encrypted then JNull else fld reqbody ''content''),
          (''encrypted_content'',
             if truthy is_encrypted then fld reqbody ''encrypted_content'' else JNull),
          (''category_id'', js_or (fld reqbody ''category_id'') JNull),
          (''user_id'', JStr userId),
          (''is_draft'', is_draft),
          (''is_public'', is_public),
          (''is_encrypted'', is_encrypted),
          (''public_share_token'', public_share_token),
          (''last_autosave'', now),
          (''updated_at'', now)])"

definition create_note ::
  "externals \<Rightarrow> int \<Rightarrow> jv \<Rightarrow> string \<Rightarrow> world \<Rightarrow> string \<Rightarrow> obj \<Rightarrow> response \<times> world"
where
  "create_note ext fresh now rand w userId reqbody =
     (case posts_insert fresh now (create_row userId now rand reqbody) w of
        (Inl postError, w1) \<Rightarrow> (Response 500 (error_body (message postError)), w1)
      | (Inr postData, w1) \<Rightarrow>
          (let label_ids = fld reqbody ''label_ids'' in
           if \<not> truthy label_ids
           then (refetch 201 (fld postData ''id'') w1, w1)
           else
             (case label_rows ext (fld postData ''id'') label_ids of
                Inl err \<Rightarrow> (Response 500 (error_body (error_text ext err)), w1)
              | Inr [] \<Rightarrow> (refetch 201 (fld postData ''id'') w1, w1)
              | Inr (l # ls) \<Rightarrow>
                  (case post_labels_insert (l # ls) w1 of
                     (Some labelError, w2) \<Rightarrow> (Response 500 (error_body (message labelError)), w2)
                   | (None, w2) \<Rightarrow> (refetch 201 (fld postData ''id'') w2, w2)))))"

text \<open>\<open>PUT /api/notes/:id\<close>\<close>

definition update_patch :: "jv \<Rightarrow> obj \<Rightarrow> obj" where
  "update_patch now reqbody =
     [(''title'', fld reqbody ''title''),
      (''content'', fld reqbody ''content''),
      (''category_id'', js_or (fld reqbody ''category_id'') JNull),
      (''updated_at'', now),
      (''is_updated'', JBool True)]"

definition update_note ::
  "externals \<Rightarrow> jv \<Rightarrow> world \<Rightarrow> string \<Rightarrow> int \<Rightarrow> obj \<Rightarrow> response \<times> world"
where
  "update_note ext now w userId nid reqbody =
     (case posts_update (\<lambda>r. has_id nid r \<and> owned_by userId r) (update_patch now reqbody) w of
        (Inl e, w1) \<Rightarrow> (Response 500 (error_body (message e)), w1)
      | (Inr [], w1) \<Rightarrow> (Response 404 (error_body ''Note not found or access denied''), w1)
      | (Inr (d # ds), w1) \<Rightarrow>
          (let label_ids = fld reqbody ''label_ids'' in
           if label_ids = JUndefined
           then (refetch 200 (JNum nid) w1, w1)
           else
             (let w2 = post_labels_delete nid w1 in
              case label_rows ext (JNum nid) label_ids of
                Inl err \<Rightarrow> (Response 500 (error_body (error_text ext err)), w2)
              | Inr [] \<Rightarrow> (refetch 200 (JNum nid) w2, w2)
              | Inr (l # ls) \<Rightarrow>
                  (case post_labels_insert (l # ls) w2 of
                     (Some labelError, w3) \<Rightarrow> (Response 500 (error_body (message labelError)), w3)
                   | (None, w3) \<Rightarrow> (refetch 200 (JNum nid) w3, w3)))))"

text \<open>\<open>DELETE /api/notes/:id\<close>\<close>

definition delete_note :: "world \<Rightarrow> string \<Rightarrow> int \<Rightarrow> response \<times> world" where
  "delete_note w userId nid =
     (case posts_delete (\<lambda>r. has_id nid r \<and> owned_by userId r) w of
        (Some e, w1) \<Rightarrow> (Response 500 (error_body (message e)), w1)
      | (None, w1) \<Rightarrow> (Response 200 (JObj [(''message'', JStr ''Note deleted successfully'')]), w1))"

text \<open>\<open>POST /api/notes/:id/autosave\<close>\<close>

definition autosave_patch :: "jv \<Rightarrow> obj \<Rightarrow> obj" where
  "autosave_patch now reqbody =
     (let is_encrypted = fld reqbody ''is_encrypted''
      in [(''title'', fld reqbody ''title''),
          (''content'', if truthy is_encrypted then JNull else fld reqbody ''content''),
          (''encrypted_content'',
             if truthy is_encrypted then fld reqbody ''encrypted_content'' else JNull),
          (''is_encrypted'', is_encrypted),
          (''last_autosave'', now),
          (''updated_at'', now),
          (''is_updated'', JBool True)])"

definition autosave_note :: "jv \<Rightarrow> world \<Rightarrow> string \<Rightarrow> int \<Rightarrow> obj \<Rightarrow> response \<times> world" where
  "autosave_note now w userId nid reqbody =
     (case posts_update (\<lambda>r. has_id nid r \<and> owned_by userId r) (autosave_patch now reqbody) w of
        (Inl e, w1) \<Rightarrow> (Response 500 (error_body (message e)), w1)
      | (Inr [], w1) \<Rightarrow> (Response 404 (error_body ''Note not found or access denied''), w1)
      | (Inr (d # ds), w1) \<Rightarrow>
          (Response 200 (JObj [(''message'', JStr ''Autosaved successfully''),
                               (''last_autosave'', fld d ''last_autosave'')]), w1))"

text \<open>\<open>PATCH /api/notes/:id/visibility\<close>\<close>

definition visibility_patch :: "jv \<Rightarrow> string \<Rightarrow> obj \<Rightarrow> obj" where
  "visibility_patch now rand reqbody =
     (let is_public = fld reqbody ''is_public'';
          public_share_token = (if truthy is_public then JStr rand else JNull)
      in [(''is_public'', is_public),
          (''public_share_token'', public_share_token),
          (''updated_at'', now)])"

definition set_visibility :: "jv \<Rightarrow> string \<Rightarrow> world \<Rightarrow> string \<Rightarrow> int \<Rightarrow> obj \<Rightarrow> response \<times> world" where
  "set_visibility now rand w userId nid reqbody =
     (case posts_update (\<lambda>r. has_id nid r \<and> owned_by userId r)
             (visibility_patch now rand reqbody) w of
        (Inl e, w1) \<Rightarrow> (Response 500 (error_body (message e)), w1)
      | (Inr [], w1) \<Rightarrow> (Response 404 (error_body ''Note not found or access denied''), w1)
      | (Inr (d # ds), w1) \<Rightarrow>
          (Response 200
             (JObj [(''message'',
                     JStr (''Note '' @ (if truthy (fld reqbody ''is_public'')
                                        then ''made public'' else ''made private''))),
                    (''public_share_token'', fld d ''public_share_token''),
                    (''is_public'', fld d ''is_public'')]), w1))"

text \<open>\<open>PATCH /api/notes/:id/publish\<close>\<close>

definition publish_patch :: "jv \<Rightarrow> obj" where
  "publish_patch now = [(''is_draft'', JBool False), (''updated_at'', now), (''is_updated'', JBool True)]"

definition publish_note :: "jv \<Rightarrow> world \<Rightarrow> string \<Rightarrow> int \<Rightarrow> response \<times> world" where
  "publish_note now w userId nid =
     (case posts_update
             (\<lambda>r. has_id nid r \<and> owned_by userId r \<and> fld r ''is_draft'' = JBool True)
             (publish_patch now) w of
        (Inl e, w1) \<Rightarrow> (Response 500 (error_body (message e)), w1)
      | (Inr [], w1) \<Rightarrow> (Response 404 (error_body ''Draft not found or access denied''), w1)
      | (Inr (d # ds), w1) \<Rightarrow>
          (Response 200 (JObj [(''message'', JStr ''Draft published successfully''),
                               (''note'', JObj d)]), w1))"

section \<open>Two callers of the user provisioner\<close>

text \<open>
  \<open>ensureUserExists\<close> awaits the database twice: the lookup, and the insert when the
  lookup found no row. Between two awaits a handler runs alone, so a call is at one of
  three points, and one step takes it to the next. Two requests of the same user that
  arrive together interleave their steps in any order; the schedule says whose turn it
  is (\<open>True\<close> for the first caller).
\<close>

datatype ensure_pc = AtLookup | AtInsert obj | Returned

definition ensure_step :: "jv \<Rightarrow> jv \<Rightarrow> ensure_pc \<Rightarrow> world \<Rightarrow> ensure_pc \<times> world" where
  "ensure_step now user pc w =
     (case pc of
        AtLookup \<Rightarrow>
          (case users_select_single (get_prop user ''id'') w of
             (existingUser, Some fetchError) \<Rightarrow>
               if code fetchError = ''PGRST116'' then
                 (case derive_name user of
                    None \<Rightarrow> (Returned, console_error ''Error ensuring user exists:'' w)
                  | Some name \<Rightarrow> (AtInsert (new_user_row now user name), w))
               else (Returned, w)
           | (existingUser, None) \<Rightarrow> (Returned, w))
      | AtInsert row \<Rightarrow>
          (case users_insert row w of
             (Some insertError, w') \<Rightarrow>
               (Returned, console_error ''Error creating user in database:'' w')
           | (None, w') \<Rightarrow> (Returned, console_log ''Created new user in database:'' w'))
      | Returned \<Rightarrow> (Returned, w))"

fun interleave ::
  "jv \<Rightarrow> jv \<Rightarrow> jv \<Rightarrow> jv \<Rightarrow> bool list \<Rightarrow> ensure_pc \<times> ensure_pc \<times> world \<Rightarrow> ensure_pc \<times> ensure_pc \<times> world"
where
  "interleave now1 user1 now2 user2 [] cfg = cfg"
| "interleave now1 user1 now2 user2 (first # sched) (pc1, pc2, w) =
     (if first
      then (case ensure_step now1 user1 pc1 w of
              (pc1', w') \<Rightarrow> interleave now1 user1 now2 user2 sched (pc1', pc2, w'))
      else (case ensure_step now2 user2 pc2 w of
              (pc2', w') \<Rightarrow> interleave now1 user1 now2 user2 sched (pc1, pc2', w')))"

text \<open>The number of LocalUserRecords with a given id.\<close>

definition user_records :: "jv \<Rightarrow> world \<Rightarrow> nat" where
  "user_records v w =
     (case users_tbl w of
        Inl e \<Rightarrow> 0
      | Inr rows \<Rightarrow> length (filter (\<lambda>r. fld r ''id'' = v) rows))"

text \<open>How many awaits a caller still has before it returns, and what is known at each
  point of a call for the user with id \<open>uid\<close>.\<close>

definition steps_left :: "ensure_pc \<Rightarrow> nat" where
  "steps_left pc = (case pc of AtLookup \<Rightarrow> 2 | AtInsert _ \<Rightarrow> 1 | Returned \<Rightarrow> 0)"

definition pc_ok :: "jv \<Rightarrow> world \<Rightarrow> ensure_pc \<Rightarrow> bool" where
  "pc_ok uid w pc =
     (case pc of
        AtLookup \<Rightarrow> True
      | AtInsert row \<Rightarrow> fld row ''id'' = uid \<and> fld (json_drop row) ''id'' = uid
      | Returned \<Rightarrow> user_records uid w = 1)"

definition ensure_inv :: "jv \<Rightarrow> ensure_pc \<times> ensure_pc \<times> world \<Rightarrow> bool" where
  "ensure_inv uid cfg =
     (case cfg of (pc1, pc2, w) \<Rightarrow>
        (\<exists>rows. users_tbl w = Inr rows) \<and> user_records uid w \<le> 1
        \<and> pc_ok uid w pc1 \<and> pc_ok uid w pc2)"

section \<open>Sample data\<close>

text \<open>A sample environment and state for concrete runs: one token verifies locally, one
  is only known to the authority, every other token is rejected by both.\<close>

definition sample_payload :: obj where
  "sample_payload =
     [(''sub'', JStr ''u1''), (''email'', JStr ''ann@example.org''), (''iss'', JStr ''supabase'')]"

definition sample_remote_user :: jv where
  "sample_remote_user = JObj [(''id'', JStr ''u2''), (''email'', JStr ''bob@example.org'')]"

definition sample_env :: auth_env where
  "sample_env =
     \<lparr>jwt_verify = (\<lambda>t. if t = ''local-token'' then Inr sample_payload else Inl ''jwt malformed''),
      getUser = (\<lambda>t. if t = ''remote-token'' then Resolved sample_remote_user JNull
                     else Resolved JNull (JObj [(''message'', JStr ''invalid JWT'')]))\<rparr>"

definition empty_world :: world where
  "empty_world =
     \<lparr>users_tbl = Inr [], posts_tbl = Inr [], post_labels_tbl = Inr [], categories_tbl = [],
      labels_tbl = [], embed_fault = None, authority_calls = [], console = []\<rparr>"

text \<open>Externals for runs that use no label, category or search filter and throw no
  TypeError, with a database that accepts every range.\<close>

definition sample_ext :: externals where
  "sample_ext =
     \<lparr>parseInt = (\<lambda>s. None), category_eq = (\<lambda>c r. False), search_match = (\<lambda>s r. False),
      range_check = (\<lambda>lo hi. None), positive = (\<lambda>v. v = JBool True),
      error_text = (\<lambda>err. ''TypeError'')\<rparr>"

text \<open>Three notes of user \<open>u1\<close> (the second one encrypted, public and edited) and one of
  user \<open>u2\<close>.\<close>

definition note1 :: obj where
  "note1 =
     [(''id'', JNum 1), (''user_id'', JStr ''u1''), (''title'', JStr ''first''),
      (''content'', JStr ''plain text''), (''encrypted_content'', JNull),
      (''is_encrypted'', JBool False), (''category_id'', JNull),
      (''is_draft'', JBool False), (''is_public'', JBool False),
      (''public_share_token'', JNull), (''is_updated'', JBool False),
      (''created_at'', JNum 100), (''updated_at'', JNum 100), (''last_autosave'', JNum 100)]"

definition note2 :: obj where
  "note2 =
     [(''id'', JNum 2), (''user_id'', JStr ''u1''), (''title'', JStr ''second''),
      (''content'', JNull), (''encrypted_content'', JStr ''ciphertext''),
      (''is_encrypted'', JBool True), (''category_id'', JNull),
      (''is_draft'', JBool False), (''is_public'', JBool True),
      (''public_share_token'', JStr ''share2''), (''is_updated'', JBool True),
      (''created_at'', JNum 200), (''updated_at'', JNum 250), (''last_autosave'', JNum 250)]"

definition note3 :: obj where
  "note3 =
     [(''id'', JNum 3), (''user_id'', JStr ''u1''), (''title'', JStr ''third''),
      (''content'', JStr ''more text''), (''encrypted_content'', JNull),
      (''is_encrypted'', JBool False), (''category_id'', JNull),
      (''is_draft'', JBool True), (''is_public'', JBool False),
      (''public_share_token'', JNull), (''is_updated'', JBool False),
      (''created_at'', JNum 300), (''updated_at'', JNum 300), (''last_autosave'', JNum 300)]"

definition note4 :: obj where
  "note4 =
     [(''id'', JNum 4), (''user_id'', JStr ''u2''), (''title'', JStr ''other''),
      (''content'', JStr ''not yours''), (''encrypted_content'', JNull),
      (''is_encrypted'', JBool False), (''category_id'', JNull),
      (''is_draft'', JBool True), (''is_public'', JBool False),
      (''public_share_token'', JNull), (''is_updated'', JBool False),
      (''created_at'', JNum 400), (''updated_at'', JNum 400), (''last_autosave'', JNum 400)]"

definition notes_world :: world where
  "notes_world = empty_world\<lparr>posts_tbl := Inr [note1, note2, note3, note4]\<rparr>"

text \<open>The same store while the schema cache does not know the relationships of
  \<open>posts\<close>, and before the table exists.\<close>

definition unrelated_world :: world where
  "unrelated_world =
     notes_world\<lparr>embed_fault :=
       Some (DbError ''PGRST200''
               ''Could not find a relationship between posts and categories in the schema cache'')\<rparr>"

definition tableless_world :: world where
  "tableless_world =
     empty_world\<lparr>posts_tbl :=
       Inl (DbError ''PGRST205'' ''Could not find the table public.posts in the schema cache'')\<rparr>"

definition sample_query :: "int \<Rightarrow> int \<Rightarrow> query" where
  "sample_query p l =
     \<lparr>q_category = None, q_labels = None, q_search = None, q_drafts = None,
      q_visibility = None, q_page = p, q_limit = l\<rparr>"

text \<open>The body of a plain-text edit: \<open>{title, content}\<close>.\<close>

definition plain_edit :: obj where
  "plain_edit = [(''title'', JStr ''second''), (''content'', JStr ''new plain text'')]"

section \<open>Properties of the middleware\<close>

lemma call_authority_calls [simp]:
  "authority_calls (call_authority t w) = authority_calls w @ [t]"
  by (simp add: call_authority_def)

lemma console_calls [simp]:
  "authority_calls (console_error m w) = authority_calls w"
  "authority_calls (console_log m w) = authority_calls w"
  by (simp_all add: console_error_def console_log_def)

lemma users_insert_calls:
  "users_insert row w = (e, w') \<Longrightarrow> authority_calls w' = authority_calls w"
  by (auto simp: users_insert_def split: sum.splits if_splits)

lemma ensureUserExists_calls [simp]:
  "authority_calls (ensureUserExists now user w) = authority_calls w"
  by (auto simp: ensureUserExists_def dest: users_insert_calls
           split: prod.splits option.splits)

lemma no_credential_mandatory:
  "access_token req = None \<or> access_token req = Some [] \<Longrightarrow>
   authenticateUser env now req w =
     (Respond (Response 401 (error_body ''Access token required'')), w)"
  by (auto simp: authenticateUser_def)

lemma no_credential_optional:
  "access_token req = None \<or> access_token req = Some [] \<Longrightarrow>
   optionalAuth env now req w = (Next None, w)"
  by (auto simp: optionalAuth_def)

lemma bearer_only_token:
  assumes "cookie_token req = None \<or> cookie_token req = Some []"
    and "authorization req = Some ''Bearer''"
  shows "access_token req = Some ''Bearer''"
  using assms by (auto simp: access_token_def)

lemma rejected_token_mandatory:
  assumes "access_token req = Some token" and "token \<noteq> []"
    and "jwt_verify env token = Inl msg"
  shows "authority_calls (snd (authenticateUser env now req w)) = authority_calls w @ [token]"
    and "getUser env token = Resolved user err \<Longrightarrow> truthy err \<or> \<not> truthy user \<Longrightarrow>
         fst (authenticateUser env now req w)
           = Respond (Response 401 (error_body ''Invalid or expired token''))"
  using assms
  by (cases token; auto simp: authenticateUser_def verifySupabaseToken_def Let_def
        split: authority_result.splits)+

lemma rejected_token_optional:
  assumes "access_token req = Some token" and "token \<noteq> []"
    and "jwt_verify env token = Inl msg"
  shows "authority_calls (snd (optionalAuth env now req w)) = authority_calls w @ [token]"
    and "getUser env token = Resolved user err \<Longrightarrow> truthy err \<or> \<not> truthy user \<Longrightarrow>
         fst (optionalAuth env now req w) = Next None"
  using assms
  by (cases token; auto simp: optionalAuth_def verifySupabaseToken_def Let_def
        split: authority_result.splits)+

text \<open>
  C1, as the code has it: a credential that reaches the middleware as the empty string is
  handled exactly like an absent one. When the cookie is missing or empty and the
  \<open>Authorization\<close> header is missing or empty, the mandatory middleware answers 401
  "Access token required", the optional middleware continues without an identity, and
  both leave the state as it was: no verification, no authority call, no provisioning.
  An \<open>Authorization\<close> header with nothing after the scheme reaches the middleware as
  \<open>Bearer\<close>, which is a token like any other: when local verification fails on it, it is
  sent to the authority exactly once, and when the authority gives no user the mandatory
  middleware answers 401 "Invalid or expired token" and the optional one continues
  without an identity.
\<close>

theorem C1_empty_credential_is_no_token:
  assumes "cookie_token req = None \<or> cookie_token req = Some []"
  shows "(authorization req = None \<or> authorization req = Some [] \<longrightarrow>
            authenticateUser env now req w
              = (Respond (Response 401 (error_body ''Access token required'')), w)
            \<and> optionalAuth env now req w = (Next None, w))
       \<and> (\<forall>msg. authorization req = Some ''Bearer'' \<and> jwt_verify env ''Bearer'' = Inl msg \<longrightarrow>
            authority_calls (snd (authenticateUser env now req w))
              = authority_calls w @ [''Bearer'']
            \<and> authority_calls (snd (optionalAuth env now req w))
              = authority_calls w @ [''Bearer'']
            \<and> (\<forall>user err. getUser env ''Bearer'' = Resolved user err
                    \<and> (truthy err \<or> \<not> truthy user) \<longrightarrow>
                  fst (authenticateUser env now req w)
                    = Respond (Response 401 (error_body ''Invalid or expired token''))
                  \<and> fst (optionalAuth env now req w) = Next None))"
proof -
  have none: "authenticateUser env now req w
                = (Respond (Response 401 (error_body ''Access token required'')), w)
              \<and> optionalAuth env now req w = (Next None, w)"
    if "authorization req = None \<or> authorization req = Some []"
  proof -
    from that assms have "access_token req = None \<or> access_token req = Some []"
      by (auto simp: access_token_def)
    then show ?thesis
      by (simp add: no_credential_mandatory no_credential_optional)
  qed
  have bearer: "authority_calls (snd (authenticateUser env now req w))
                  = authority_calls w @ [''Bearer'']
                \<and> authority_calls (snd (optionalAuth env now req w))
                  = authority_calls w @ [''Bearer'']
                \<and> (\<forall>user err. getUser env ''Bearer'' = Resolved user err
                        \<and> (truthy err \<or> \<not> truthy user) \<longrightarrow>
                      fst (authenticateUser env now req w)
                        = Respond (Response 401 (error_body ''Invalid or expired token''))
                      \<and> fst (optionalAuth env now req w) = Next None)"
    if a: "authorization req = Some ''Bearer'' \<and> jwt_verify env ''Bearer'' = Inl msg" for msg
  proof -
    from a have t: "access_token req = Some ''Bearer''"
      using bearer_only_token [OF assms] by simp
    have n: "''Bearer'' \<noteq> []" by simp
    from a have v: "jwt_verify env ''Bearer'' = Inl msg" by simp
    show ?thesis
      using rejected_token_mandatory [OF t n v, where now = now and w = w]
        rejected_token_optional [OF t n v, where now = now and w = w]
      by blast
  qed
  from none bearer show ?thesis by blast
qed

theorem C1_empty_credential_is_no_token_witness:
  "authenticateUser sample_env (JNum 5)
      \<lparr>cookie_token = Some [], authorization = Some []\<rparr> empty_world
     = (Respond (Response 401 (error_body ''Access token required'')), empty_world)
   \<and> optionalAuth sample_env (JNum 5)
      \<lparr>cookie_token = Some [], authorization = Some []\<rparr> empty_world
     = (Next None, empty_world)
   \<and> authority_calls (snd (authenticateUser sample_env (JNum 5)
        \<lparr>cookie_token = None, authorization = Some ''Bearer''\<rparr> empty_world)) = [''Bearer'']
   \<and> fst (authenticateUser sample_env (JNum 5)
        \<lparr>cookie_token = None, authorization = Some ''Bearer''\<rparr> empty_world)
     = Respond (Response 401 (error_body ''Invalid or expired token''))
   \<and> authority_calls (snd (optionalAuth sample_env (JNum 5)
        \<lparr>cookie_token = None, authorization = Some ''Bearer''\<rparr> empty_world)) = [''Bearer'']
   \<and> fst (optionalAuth sample_env (JNum 5)
        \<lparr>cookie_token = None, authorization = Some ''Bearer''\<rparr> empty_world)
     = Next None"
proof -
  have v: "jwt_verify sample_env ''Bearer'' = Inl ''jwt malformed''"
    by (simp add: sample_env_def)
  have g: "getUser sample_env ''Bearer''
             = Resolved JNull (JObj [(''message'', JStr ''invalid JWT'')])"
    by (simp add: sample_env_def)
  have e: "authority_calls empty_world = []"
    by (simp add: empty_world_def)
  from C1_empty_credential_is_no_token
    [of "\<lparr>cookie_token = Some [], authorization = Some []\<rparr>" sample_env "JNum 5" empty_world]
  have 1: "authenticateUser sample_env (JNum 5)
      \<lparr>cookie_token = Some [], authorization = Some []\<rparr> empty_world
     = (Respond (Response 401 (error_body ''Access token required'')), empty_world)
   \<and> optionalAuth sample_env (JNum 5)
      \<lparr>cookie_token = Some [], authorization = Some []\<rparr> empty_world
     = (Next None, empty_world)"
    by simp
  from C1_empty_credential_is_no_token
    [of "\<lparr>cookie_token = None, authorization = Some ''Bearer''\<rparr>" sample_env "JNum 5"
        empty_world] v g e
  have 2: "authority_calls (snd (authenticateUser sample_env (JNum 5)
        \<lparr>cookie_token = None, authorization = Some ''Bearer''\<rparr> empty_world)) = [''Bearer'']
   \<and> fst (authenticateUser sample_env (JNum 5)
        \<lparr>cookie_token = None, authorization = Some ''Bearer''\<rparr> empty_world)
     = Respond (Response 401 (error_body ''Invalid or expired token''))
   \<and> authority_calls (snd (optionalAuth sample_env (JNum 5)
        \<lparr>cookie_token = None, authorization = Some ''Bearer''\<rparr> empty_world)) = [''Bearer'']
   \<and> fst (optionalAuth sample_env (JNum 5)
        \<lparr>cookie_token = None, authorization = Some ''Bearer''\<rparr> empty_world)
     = Next None"
    by simp
  from 1 2 show ?thesis by simp
qed

text \<open>
  As the spec states it, a request whose bearer credential is the empty string is treated
  as a failed local verification and goes on to the authority, and only an absent
  credential gives the NoToken outcome. That is not what the middleware does: with an
  empty cookie and no header, and with no cookie and an empty \<open>Authorization\<close> header,
  the mandatory middleware answers 401 "Access token required" at once, the optional one
  continues with an empty cookie and an empty header, and none of them calls the
  authority.
\<close>

theorem C1_empty_credential_counterexample:
  "authenticateUser sample_env (JNum 0)
     \<lparr>cookie_token = Some [], authorization = None\<rparr> empty_world
     = (Respond (Response 401 (error_body ''Access token required'')), empty_world)
   \<and> authenticateUser sample_env (JNum 0)
     \<lparr>cookie_token = None, authorization = Some []\<rparr> empty_world
     = (Respond (Response 401 (error_body ''Access token required'')), empty_world)
   \<and> optionalAuth sample_env (JNum 0)
     \<lparr>cookie_token = Some [], authorization = Some []\<rparr> empty_world
     = (Next None, empty_world)
   \<and> authority_calls empty_world = []"
  by (simp add: authenticateUser_def optionalAuth_def access_token_def empty_world_def)

text \<open>
  C2: a token that passes local verification makes the middleware attach the identity
  built from its payload (the id is the payload's \<open>sub\<close>, the email its \<open>email\<close>, the two
  metadata objects its own or empty ones, the two timestamps its own) and continue, with
  no call to the authority. A token that fails local verification causes exactly one
  authority call, with that token; when the call resolves, the request continues as
  authenticated, with the authority's user attached, exactly when it resolved to a user
  and no error, and is answered 401 "Invalid or expired token" otherwise.
\<close>

theorem C2_fast_path_and_single_fallback:
  assumes "access_token req = Some token" and "token \<noteq> []"
  shows "(\<forall>payload. jwt_verify env token = Inr payload \<longrightarrow>
            fst (authenticateUser env now req w)
              = Next (Some (JObj
                  [(''id'', fld payload ''sub''),
                   (''email'', fld payload ''email''),
                   (''user_metadata'', js_or (fld payload ''user_metadata'') (JObj [])),
                   (''app_metadata'', js_or (fld payload ''app_metadata'') (JObj [])),
                   (''created_at'', fld payload ''created_at''),
                   (''email_confirmed_at'', fld payload ''email_confirmed_at'')]))
            \<and> authority_calls (snd (authenticateUser env now req w)) = authority_calls w)
       \<and> (\<forall>msg. jwt_verify env token = Inl msg \<longrightarrow>
            authority_calls (snd (authenticateUser env now req w)) = authority_calls w @ [token]
            \<and> (\<forall>user err. getUser env token = Resolved user err \<longrightarrow>
                  (fst (authenticateUser env now req w) = Next (Some user))
                     = (truthy user \<and> \<not> truthy err)
                  \<and> (\<not> (truthy user \<and> \<not> truthy err) \<longrightarrow>
                        fst (authenticateUser env now req w)
                          = Respond (Response 401 (error_body ''Invalid or expired token'')))))"
proof -
  obtain c cs where tok: "token = c # cs"
    using assms(2) by (cases token) auto
  show ?thesis
    using assms(1) unfolding tok
    by (auto simp: authenticateUser_def verifySupabaseToken_def jwt_identity_def Let_def
             split: authority_result.splits)
qed

theorem C2_fast_path_and_single_fallback_witness:
  "fst (authenticateUser sample_env (JNum 5)
          \<lparr>cookie_token = Some ''local-token'', authorization = None\<rparr> empty_world)
     = Next (Some (JObj
         [(''id'', JStr ''u1''),
          (''email'', JStr ''ann@example.org''),
          (''user_metadata'', JObj []),
          (''app_metadata'', JObj []),
          (''created_at'', JUndefined),
          (''email_confirmed_at'', JUndefined)]))
   \<and> authority_calls (snd (authenticateUser sample_env (JNum 5)
          \<lparr>cookie_token = Some ''local-token'', authorization = None\<rparr> empty_world)) = []
   \<and> authority_calls (snd (authenticateUser sample_env (JNum 5)
          \<lparr>cookie_token = None, authorization = Some ''Bearer remote-token''\<rparr> empty_world))
       = [''remote-token'']
   \<and> fst (authenticateUser sample_env (JNum 5)
          \<lparr>cookie_token = None, authorization = Some ''Bearer remote-token''\<rparr> empty_world)
       = Next (Some sample_remote_user)
   \<and> authority_calls (snd (authenticateUser sample_env (JNum 5)
          \<lparr>cookie_token = None, authorization = Some ''Bearer stale''\<rparr> empty_world))
       = [''stale'']
   \<and> fst (authenticateUser sample_env (JNum 5)
          \<lparr>cookie_token = None, authorization = Some ''Bearer stale''\<rparr> empty_world)
       = Respond (Response 401 (error_body ''Invalid or expired token''))"
proof -
  have a: "access_token \<lparr>cookie_token = Some ''local-token'', authorization = None\<rparr>
             = Some ''local-token''"
    by (simp add: access_token_def)
  have b: "access_token \<lparr>cookie_token = None, authorization = Some ''Bearer remote-token''\<rparr>
             = Some ''remote-token''"
    by (simp add: access_token_def)
  have c: "access_token \<lparr>cookie_token = None, authorization = Some ''Bearer stale''\<rparr>
             = Some ''stale''"
    by (simp add: access_token_def)
  have va: "jwt_verify sample_env ''local-token'' = Inr sample_payload"
    by (simp add: sample_env_def)
  have vb: "jwt_verify sample_env ''remote-token'' = Inl ''jwt malformed''"
    by (simp add: sample_env_def)
  have vc: "jwt_verify sample_env ''stale'' = Inl ''jwt malformed''"
    by (simp add: sample_env_def)
  have gb: "getUser sample_env ''remote-token'' = Resolved sample_remote_user JNull"
    by (simp add: sample_env_def)
  have gc: "getUser sample_env ''stale''
              = Resolved JNull (JObj [(''message'', JStr ''invalid JWT'')])"
    by (simp add: sample_env_def)
  have ta: "truthy sample_remote_user \<and> \<not> truthy JNull"
    by (simp add: sample_remote_user_def)
  have e: "authority_calls empty_world = []"
    by (simp add: empty_world_def)
  have p: "fld sample_payload ''sub'' = JStr ''u1''"
    "fld sample_payload ''email'' = JStr ''ann@example.org''"
    "fld sample_payload ''user_metadata'' = JUndefined"
    "fld sample_payload ''app_metadata'' = JUndefined"
    "fld sample_payload ''created_at'' = JUndefined"
    "fld sample_payload ''email_confirmed_at'' = JUndefined"
    by (simp_all add: sample_payload_def fld_def)
  from C2_fast_path_and_single_fallback [OF a, of sample_env "JNum 5" empty_world] va e
  have 1: "fst (authenticateUser sample_env (JNum 5)
          \<lparr>cookie_token = Some ''local-token'', authorization = None\<rparr> empty_world)
     = Next (Some (JObj
         [(''id'', JStr ''u1''),
          (''email'', JStr ''ann@example.org''),
          (''user_metadata'', JObj []),
          (''app_metadata'', JObj []),
          (''created_at'', JUndefined),
          (''email_confirmed_at'', JUndefined)]))
   \<and> authority_calls (snd (authenticateUser sample_env (JNum 5)
          \<lparr>cookie_token = Some ''local-token'', authorization = None\<rparr> empty_world)) = []"
    by (simp add: p js_or_def)
  from C2_fast_path_and_single_fallback [OF b, of sample_env "JNum 5" empty_world] vb gb ta e
  have 2: "authority_calls (snd (authenticateUser sample_env (JNum 5)
          \<lparr>cookie_token = None, authorization = Some ''Bearer remote-token''\<rparr> empty_world))
       = [''remote-token'']
   \<and> fst (authenticateUser sample_env (JNum 5)
          \<lparr>cookie_token = None, authorization = Some ''Bearer remote-token''\<rparr> empty_world)
       = Next (Some sample_remote_user)"
    by simp
  from C2_fast_path_and_single_fallback [OF c, of sample_env "JNum 5" empty_world] vc gc e
  have 3: "authority_calls (snd (authenticateUser sample_env (JNum 5)
          \<lparr>cookie_token = None, authorization = Some ''Bearer stale''\<rparr> empty_world))
       = [''stale'']
   \<and> fst (authenticateUser sample_env (JNum 5)
          \<lparr>cookie_token = None, authorization = Some ''Bearer stale''\<rparr> empty_world)
       = Respond (Response 401 (error_body ''Invalid or expired token''))"
    by simp
  from 1 2 3 show ?thesis by simp
qed

section \<open>Properties of the user provisioner\<close>

lemma ensureUserExists_steps:
  "(case ensure_step now user AtLookup w of (pc, w1) \<Rightarrow> ensure_step now user pc w1)
     = (Returned, ensureUserExists now user w)"
  by (auto simp: ensureUserExists_def ensure_step_def split: prod.splits option.splits)

lemma users_tbl_console [simp]:
  "users_tbl (console_error m w) = users_tbl w"
  "users_tbl (console_log m w) = users_tbl w"
  by (simp_all add: console_error_def console_log_def)

lemma user_records_console [simp]:
  "user_records v (console_error m w) = user_records v w"
  "user_records v (console_log m w) = user_records v w"
  by (simp_all add: user_records_def)

lemma new_user_row_id [simp]:
  "fld (new_user_row now user name) ''id'' = get_prop user ''id''"
  "get_prop user ''id'' \<noteq> JUndefined \<Longrightarrow> fld (json_drop (new_user_row now user name)) ''id'' = get_prop user ''id''"
  by (simp_all add: new_user_row_def fld_def json_drop_def)

lemma step_lookup:
  assumes "users_tbl w = Inr rows" "user_records uid w \<le> 1"
    "get_prop user ''id'' = uid" "derive_name user \<noteq> None" "uid \<noteq> JUndefined"
    "ensure_step now user AtLookup w = (pc', w')"
  shows "w' = w \<and> pc_ok uid w pc'"
  using assms
  by (auto simp: ensure_step_def users_select_single_def pc_ok_def user_records_def
      no_single_row_def
      split: list.splits option.splits if_splits)

lemma step_insert:
  assumes "users_tbl w = Inr rows" "user_records uid w \<le> 1"
    "fld row ''id'' = uid" "fld (json_drop row) ''id'' = uid"
    "ensure_step now user (AtInsert row) w = (pc', w')"
  shows "pc' = Returned \<and> (\<exists>rows'. users_tbl w' = Inr rows') \<and> user_records uid w' = 1"
proof (cases "uid \<in> set (map (\<lambda>r. fld r ''id'') rows)")
  case True
  then have "filter (\<lambda>r. fld r ''id'' = uid) rows \<noteq> []"
    by (auto simp: filter_empty_conv)
  then have "user_records uid w \<ge> 1"
    using assms(1) by (cases "filter (\<lambda>r. fld r ''id'' = uid) rows") (auto simp: user_records_def)
  with assms True show ?thesis
    by (auto simp: ensure_step_def users_insert_def)
next
  case False
  then have "filter (\<lambda>r. fld r ''id'' = uid) rows = []"
    by (auto simp: filter_empty_conv)
  with assms False show ?thesis
    by (auto simp: ensure_step_def users_insert_def user_records_def)
qed

lemma step_returned: "ensure_step now user Returned w = (Returned, w)"
  by (simp add: ensure_step_def)

lemma ensure_step_inv:
  assumes "ensure_inv uid (pc1, pc2, w)" "uid \<noteq> JUndefined"
    "get_prop user ''id'' = uid" "derive_name user \<noteq> None"
    "ensure_step now user pc1 w = (pc1', w')"
  shows "ensure_inv uid (pc1', pc2, w') \<and> ensure_inv uid (pc2, pc1', w')"
proof -
  from assms(1) obtain rows where rows: "users_tbl w = Inr rows"
    and le: "user_records uid w \<le> 1" and ok1: "pc_ok uid w pc1" and ok2: "pc_ok uid w pc2"
    by (auto simp: ensure_inv_def)
  show ?thesis
  proof (cases pc1)
    case AtLookup
    with step_lookup [OF rows le assms(3) assms(4) assms(2)] assms(5)
    have "w' = w \<and> pc_ok uid w pc1'" by simp
    with rows le ok2 show ?thesis by (auto simp: ensure_inv_def)
  next
    case (AtInsert row)
    with ok1 have r: "fld row ''id'' = uid" "fld (json_drop row) ''id'' = uid"
      by (auto simp: pc_ok_def)
    from step_insert [OF rows le r] assms(5) AtInsert
    have st: "pc1' = Returned" "\<exists>rows'. users_tbl w' = Inr rows'" "user_records uid w' = 1"
      by auto
    have "pc_ok uid w' pc2"
      using ok2 st(3) by (cases pc2) (auto simp: pc_ok_def)
    with st show ?thesis by (auto simp: ensure_inv_def pc_ok_def)
  next
    case Returned
    with assms(5) have "pc1' = Returned" "w' = w" by (auto simp: ensure_step_def)
    with Returned rows le ok1 ok2 show ?thesis by (auto simp: ensure_inv_def)
  qed
qed

lemma interleave_inv:
  assumes "uid \<noteq> JUndefined"
    "get_prop user1 ''id'' = uid" "derive_name user1 \<noteq> None"
    "get_prop user2 ''id'' = uid" "derive_name user2 \<noteq> None"
  shows "ensure_inv uid cfg \<Longrightarrow> ensure_inv uid (interleave now1 user1 now2 user2 sched cfg)"
proof (induction sched arbitrary: cfg)
  case Nil
  then show ?case by simp
next
  case (Cons first sched)
  obtain pc1 pc2 w where cfg: "cfg = (pc1, pc2, w)" by (cases cfg) auto
  show ?case
  proof (cases first)
    case True
    obtain pc1' w' where st: "ensure_step now1 user1 pc1 w = (pc1', w')"
      by (cases "ensure_step now1 user1 pc1 w") auto
    from ensure_step_inv [OF Cons.prems [unfolded cfg] assms(1) assms(2) assms(3) st]
    have "ensure_inv uid (pc1', pc2, w')" by simp
    then show ?thesis using Cons.IH cfg True st by simp
  next
    case False
    obtain pc2' w' where st: "ensure_step now2 user2 pc2 w = (pc2', w')"
      by (cases "ensure_step now2 user2 pc2 w") auto
    have "ensure_inv uid (pc2, pc1, w)"
      using Cons.prems cfg by (auto simp: ensure_inv_def)
    from ensure_step_inv [OF this assms(1) assms(4) assms(5) st]
    have "ensure_inv uid (pc1, pc2', w')" by simp
    then show ?thesis using Cons.IH cfg False st by simp
  qed
qed

lemma steps_left_step:
  "steps_left (fst (ensure_step now user pc w)) \<le> steps_left pc - 1"
  by (auto simp: steps_left_def ensure_step_def split: ensure_pc.splits prod.splits option.splits)

lemma interleave_finishes:
  "steps_left pc1 \<le> length (filter (\<lambda>b. b) sched) \<Longrightarrow>
   steps_left pc2 \<le> length (filter (\<lambda>b. \<not> b) sched) \<Longrightarrow>
   \<exists>w'. interleave now1 user1 now2 user2 sched (pc1, pc2, w) = (Returned, Returned, w')"
proof (induction sched arbitrary: pc1 pc2 w)
  case Nil
  then show ?case by (cases pc1; cases pc2) (auto simp: steps_left_def)
next
  case (Cons first sched)
  show ?case
  proof (cases first)
    case True
    obtain pc1' w' where st: "ensure_step now1 user1 pc1 w = (pc1', w')"
      by (cases "ensure_step now1 user1 pc1 w") auto
    with steps_left_step [of now1 user1 pc1 w] have "steps_left pc1' \<le> steps_left pc1 - 1"
      by simp
    with Cons.prems True have "steps_left pc1' \<le> length (filter (\<lambda>b. b) sched)"
      "steps_left pc2 \<le> length (filter (\<lambda>b. \<not> b) sched)" by auto
    from Cons.IH [OF this] show ?thesis using True st by simp
  next
    case False
    obtain pc2' w' where st: "ensure_step now2 user2 pc2 w = (pc2', w')"
      by (cases "ensure_step now2 user2 pc2 w") auto
    with steps_left_step [of now2 user2 pc2 w] have "steps_left pc2' \<le> steps_left pc2 - 1"
      by simp
    with Cons.prems False have "steps_left pc1 \<le> length (filter (\<lambda>b. b) sched)"
      "steps_left pc2' \<le> length (filter (\<lambda>b. \<not> b) sched)" by auto
    from Cons.IH [OF this] show ?thesis using False st by simp
  qed
qed

lemma interleave_sequential:
  "interleave now1 user1 now2 user2 [True, True, False, False] (AtLookup, AtLookup, w)
     = (Returned, Returned, ensureUserExists now2 user2 (ensureUserExists now1 user1 w))"
proof -
  obtain pc w1 where a: "ensure_step now1 user1 AtLookup w = (pc, w1)"
    by (cases "ensure_step now1 user1 AtLookup w") auto
  with ensureUserExists_steps [of now1 user1 w]
  have b: "ensure_step now1 user1 pc w1 = (Returned, ensureUserExists now1 user1 w)"
    by simp
  obtain pc' w2 where c: "ensure_step now2 user2 AtLookup (ensureUserExists now1 user1 w) = (pc', w2)"
    by (cases "ensure_step now2 user2 AtLookup (ensureUserExists now1 user1 w)") auto
  with ensureUserExists_steps [of now2 user2 "ensureUserExists now1 user1 w"]
  have d: "ensure_step now2 user2 pc' w2
             = (Returned, ensureUserExists now2 user2 (ensureUserExists now1 user1 w))"
    by simp
  show ?thesis by (simp add: a b c d)
qed

lemma conflicting_insert_returns:
  "users_tbl w = Inr rows \<Longrightarrow> fld row ''id'' \<in> set (map (\<lambda>r. fld r ''id'') rows) \<Longrightarrow>
   ensure_step now user (AtInsert row) w
     = (Returned, console_error ''Error creating user in database:'' w)"
  by (simp add: ensure_step_def users_insert_def)

lemma local_token_continues:
  "access_token req = Some token \<Longrightarrow> token \<noteq> [] \<Longrightarrow> jwt_verify env token = Inr payload \<Longrightarrow>
   fst (authenticateUser env now req w) = Next (Some (jwt_identity (JObj payload)))"
  by (cases token) (auto simp: authenticateUser_def verifySupabaseToken_def Let_def)

lemma remote_token_continues:
  "access_token req = Some token \<Longrightarrow> token \<noteq> [] \<Longrightarrow> jwt_verify env token = Inl msg \<Longrightarrow>
   getUser env token = Resolved user err \<Longrightarrow> truthy user \<Longrightarrow> \<not> truthy err \<Longrightarrow>
   fst (authenticateUser env now req w) = Next (Some user)"
  by (cases token) (auto simp: authenticateUser_def verifySupabaseToken_def Let_def)

text \<open>
  C9: two invocations of \<open>ensureUserExists\<close> for the same identity id, one after the other
  or with their database calls interleaved in any order, leave exactly one
  LocalUserRecord with that id, and both return: every schedule that gives each caller
  its two turns ends with both calls returned. An insert that collides on the unique id
  makes the call return like any other (the collision is written to the console and the
  table is left as it was), and the middleware continues with the identity whatever the
  state of the users table.
\<close>

theorem C9_ensure_exists_idempotent:
  assumes "users_tbl w = Inr rows" and "user_records (JStr uid) w \<le> 1"
    and "get_prop user1 ''id'' = JStr uid" and "get_prop user2 ''id'' = JStr uid"
    and "derive_name user1 \<noteq> None" and "derive_name user2 \<noteq> None"
  shows "user_records (JStr uid)
           (ensureUserExists now2 user2 (ensureUserExists now1 user1 w)) = 1
       \<and> (\<forall>sched w'. interleave now1 user1 now2 user2 sched (AtLookup, AtLookup, w)
                        = (Returned, Returned, w') \<longrightarrow> user_records (JStr uid) w' = 1)
       \<and> (\<forall>sched. 2 \<le> length (filter (\<lambda>b. b) sched) \<and> 2 \<le> length (filter (\<lambda>b. \<not> b) sched) \<longrightarrow>
            (\<exists>w'. interleave now1 user1 now2 user2 sched (AtLookup, AtLookup, w)
                     = (Returned, Returned, w')))
       \<and> (\<forall>w0 rows0 row. users_tbl w0 = Inr rows0
              \<and> fld row ''id'' \<in> set (map (\<lambda>r. fld r ''id'') rows0) \<longrightarrow>
            ensure_step now1 user1 (AtInsert row) w0
              = (Returned, console_error ''Error creating user in database:'' w0))
       \<and> (\<forall>env req token payload w0.
            access_token req = Some token \<and> token \<noteq> [] \<and> jwt_verify env token = Inr payload \<longrightarrow>
            fst (authenticateUser env now1 req w0) = Next (Some (jwt_identity (JObj payload))))
       \<and> (\<forall>env req token msg user err w0.
            access_token req = Some token \<and> token \<noteq> [] \<and> jwt_verify env token = Inl msg
              \<and> getUser env token = Resolved user err \<and> truthy user \<and> \<not> truthy err \<longrightarrow>
            fst (authenticateUser env now1 req w0) = Next (Some user))"
proof -
  have inv0: "ensure_inv (JStr uid) (AtLookup, AtLookup, w)"
    using assms(1,2) by (simp add: ensure_inv_def pc_ok_def)
  have conc: "user_records (JStr uid) w' = 1"
    if "interleave now1 user1 now2 user2 sched (AtLookup, AtLookup, w) = (Returned, Returned, w')"
    for sched w'
  proof -
    have "ensure_inv (JStr uid) (interleave now1 user1 now2 user2 sched (AtLookup, AtLookup, w))"
      by (rule interleave_inv [OF _ assms(3) assms(5) assms(4) assms(6) inv0]) simp
    with that show ?thesis by (simp add: ensure_inv_def pc_ok_def)
  qed
  have seq: "user_records (JStr uid)
               (ensureUserExists now2 user2 (ensureUserExists now1 user1 w)) = 1"
    by (rule conc [OF interleave_sequential])
  have fin: "\<exists>w'. interleave now1 user1 now2 user2 sched (AtLookup, AtLookup, w)
                     = (Returned, Returned, w')"
    if "2 \<le> length (filter (\<lambda>b. b) sched)" "2 \<le> length (filter (\<lambda>b. \<not> b) sched)" for sched
    by (rule interleave_finishes) (use that in \<open>simp_all add: steps_left_def\<close>)
  have col: "ensure_step now1 user1 (AtInsert row) w0
               = (Returned, console_error ''Error creating user in database:'' w0)"
    if "users_tbl w0 = Inr rows0 \<and> fld row ''id'' \<in> set (map (\<lambda>r. fld r ''id'') rows0)"
    for w0 rows0 row
    using that conflicting_insert_returns [of w0 rows0 row now1 user1] by simp
  have loc: "fst (authenticateUser env now1 req w0) = Next (Some (jwt_identity (JObj payload)))"
    if "access_token req = Some token \<and> token \<noteq> [] \<and> jwt_verify env token = Inr payload"
    for env req token payload w0
    using that local_token_continues [of req token env payload now1 w0] by simp
  have rem: "fst (authenticateUser env now1 req w0) = Next (Some user)"
    if "access_token req = Some token \<and> token \<noteq> [] \<and> jwt_verify env token = Inl msg
          \<and> getUser env token = Resolved user err \<and> truthy user \<and> \<not> truthy err"
    for env req token msg user err w0
    using that remote_token_continues [of req token env msg user err now1 w0] by simp
  show ?thesis
  proof (intro conjI allI impI)
    show "user_records (JStr uid)
            (ensureUserExists now2 user2 (ensureUserExists now1 user1 w)) = 1"
      by (rule seq)
  next
    fix sched w'
    assume "interleave now1 user1 now2 user2 sched (AtLookup, AtLookup, w)
              = (Returned, Returned, w')"
    then show "user_records (JStr uid) w' = 1" by (rule conc)
  next
    fix sched :: "bool list"
    assume "2 \<le> length (filter (\<lambda>b. b) sched) \<and> 2 \<le> length (filter (\<lambda>b. \<not> b) sched)"
    then show "\<exists>w'. interleave now1 user1 now2 user2 sched (AtLookup, AtLookup, w)
                       = (Returned, Returned, w')"
      using fin by blast
  next
    fix w0 :: world and rows0 row
    assume "users_tbl w0 = Inr rows0 \<and> fld row ''id'' \<in> set (map (\<lambda>r. fld r ''id'') rows0)"
    then show "ensure_step now1 user1 (AtInsert row) w0
                 = (Returned, console_error ''Error creating user in database:'' w0)"
      by (rule col)
  next
    fix env :: auth_env and req :: request and token payload and w0 :: world
    assume "access_token req = Some token \<and> token \<noteq> [] \<and> jwt_verify env token = Inr payload"
    then show "fst (authenticateUser env now1 req w0)
                 = Next (Some (jwt_identity (JObj payload)))"
      by (rule loc)
  next
    fix env :: auth_env and req :: request and token msg user err and w0 :: world
    assume "access_token req = Some token \<and> token \<noteq> [] \<and> jwt_verify env token = Inl msg
              \<and> getUser env token = Resolved user err \<and> truthy user \<and> \<not> truthy err"
    then show "fst (authenticateUser env now1 req w0) = Next (Some user)"
      by (rule rem)
  qed
qed

theorem C9_ensure_exists_idempotent_witness:
  "user_records (JStr ''u1'')
     (ensureUserExists (JNum 6) (jwt_identity (JObj sample_payload))
        (ensureUserExists (JNum 5) (jwt_identity (JObj sample_payload)) empty_world)) = 1
   \<and> (\<exists>w'. interleave (JNum 5) (jwt_identity (JObj sample_payload))
                       (JNum 6) (jwt_identity (JObj sample_payload))
                       [True, False, True, False] (AtLookup, AtLookup, empty_world)
              = (Returned, Returned, w')
           \<and> user_records (JStr ''u1'') w' = 1)"
proof -
  have 1: "users_tbl empty_world = Inr []"
    by (simp add: empty_world_def)
  have 2: "user_records (JStr ''u1'') empty_world \<le> 1"
    by (simp add: user_records_def empty_world_def)
  have 3: "get_prop (jwt_identity (JObj sample_payload)) ''id'' = JStr ''u1''"
    by (simp add: jwt_identity_def sample_payload_def fld_def)
  have 4: "derive_name (jwt_identity (JObj sample_payload)) \<noteq> None"
    by (simp add: derive_name_def jwt_identity_def sample_payload_def fld_def js_or_def)
  have 5: "2 \<le> length (filter (\<lambda>b. b) [True, False, True, False])
           \<and> 2 \<le> length (filter (\<lambda>b. \<not> b) [True, False, True, False])"
    by simp
  from C9_ensure_exists_idempotent [OF 1 2 3 3 4 4, of "JNum 6" "JNum 5"] 5
  show ?thesis by blast
qed

section \<open>Properties of the listing\<close>

lemma fld_update: "fld (AList.update k v r) k' = (if k' = k then v else fld r k')"
  by (simp add: fld_def update_conv')

lemma fld_pick: "fld (pick cols r) k = (if k \<in> set cols then fld r k else JUndefined)"
  by (induction r) (auto simp: fld_def pick_def)

lemma fld_json_drop: "fld (json_drop r) k = fld r k"
proof -
  have "map_of (filter (\<lambda>kv. P (fst kv)) r) k = (if P k then map_of r k else None)" for P
    by (induction r) auto
  from this [of "\<lambda>k. fld r k \<noteq> JUndefined"] show ?thesis
    by (auto simp: json_drop_def fld_def split: option.splits)
qed

lemma mine_u1:
  "filter (owned_by ''u1'') [note1, note2, note3, note4] = [note1, note2, note3]"
  by (simp add: owned_by_def fld_def note1_def note2_def note3_def note4_def)

lemma order_u1:
  "order_created_desc [note1, note2, note3] = [note3, note2, note1]"
  by (simp add: order_created_desc_def created_ts_def fld_def note1_def note2_def note3_def)

lemma json_keys_iff: "k \<in> set (json_keys (JObj r)) \<longleftrightarrow> fld r k \<noteq> JUndefined"
proof -
  have "fld r k \<noteq> JUndefined \<Longrightarrow> k \<in> fst ` set r"
    by (auto simp: fld_def split: option.splits dest: map_of_SomeD intro: rev_image_eqI)
  then show ?thesis
    by (auto simp: json_keys_def json_drop_def)
qed

lemma items_of_page_body [simp]: "items_of (Response st (page_body items pg)) = map JObj items"
  by (simp add: items_of_def page_body_def fld_def)

lemma items_of_error_body [simp]: "items_of (Response st (error_body m)) = []"
  by (simp add: items_of_def error_body_def fld_def)

lemma page_field_page_body [simp]:
  "page_field (Response st (page_body items pg)) k = get_prop pg k"
  by (simp add: page_field_def page_body_def fld_def)

lemma fld_embed_post:
  "k \<noteq> ''category'' \<Longrightarrow> k \<noteq> ''post_labels'' \<Longrightarrow> fld (embed_post pls w post) k = fld post k"
  by (simp add: embed_post_def fld_update)

lemma fld_transform_view:
  "fld (transform_view p) k =
     (if k = ''date_type'' then date_type p
      else if k = ''display_date'' then display_date p
      else if k = ''labels'' then labels_of p
      else fld p k)"
  by (simp add: transform_view_def fld_update)

lemma fld_transform_list:
  "fld (transform_list p) k =
     (if k = ''encrypted_content'' then JUndefined else fld (transform_view p) k)"
  by (simp add: transform_list_def fld_update)

lemma fld_simple_transform:
  "fld (simple_transform p) k =
     (if k = ''encrypted_content'' then JUndefined
      else if k = ''date_type'' then date_type p
      else if k = ''display_date'' then display_date p
      else if k = ''category'' then JNull
      else if k = ''labels'' then JArr []
      else fld p k)"
  by (simp add: simple_transform_def fld_update)

lemma display_embed_post [simp]:
  "display_date (embed_post pls w post) = display_date post"
  "date_type (embed_post pls w post) = date_type post"
  by (simp_all add: display_date_def date_type_def fld_embed_post)

lemma filter_by_labels_subset:
  "filter_by_labels ids xs = Inr ys \<Longrightarrow> set ys \<subseteq> set xs \<and> length ys \<le> length xs"
proof (induction xs arbitrary: ys)
  case Nil
  then show ?case by simp
next
  case (Cons p ps)
  then show ?case
    by (auto split: sum.splits if_splits)
qed

lemma label_filter_subset:
  "label_filter ext q xs = Inr ys \<Longrightarrow> set ys \<subseteq> set xs \<and> length ys \<le> length xs"
  by (auto simp: label_filter_def split: option.splits list.splits
           dest: filter_by_labels_subset)

lemma selected_subset:
  "set (order_created_desc
          (search_filter ext q (category_filter ext q (visibility_filter q (drafts_filter q xs)))))
     \<subseteq> set xs"
  by (auto simp: order_created_desc_def search_filter_def category_filter_def
                 visibility_filter_def drafts_filter_def
           split: option.splits list.splits if_splits)

lemma select_page_rows:
  assumes "select_page ext w lo hi xs = Inr data"
  shows "\<exists>pls. post_labels_tbl w = Inr pls \<and> embed_fault w = None
           \<and> data = map (embed_post pls w) (take (nat (hi - lo + 1)) (drop (nat lo) xs))"
  using assms
  by (auto simp: select_page_def select_embedded_def split: option.splits sum.splits)

lemma joined_query_rows:
  assumes "joined_query ext w userId q rows = Inr data"
  shows "\<exists>pls page. post_labels_tbl w = Inr pls \<and> embed_fault w = None
           \<and> data = map (embed_post pls w) page \<and> length page \<le> nat (q_limit q)
           \<and> set page \<subseteq> set (filter (owned_by userId) rows)"
proof -
  let ?sel = "order_created_desc
      (search_filter ext q (category_filter ext q (visibility_filter q
         (drafts_filter q (filter (owned_by userId) rows)))))"
  let ?lo = "(q_page q - 1) * q_limit q"
  from assms have "select_page ext w ?lo (?lo + q_limit q - 1) ?sel = Inr data"
    by (simp add: joined_query_def Let_def)
  from select_page_rows [OF this] obtain pls where pls: "post_labels_tbl w = Inr pls"
    "embed_fault w = None"
    "data = map (embed_post pls w) (take (nat (?lo + q_limit q - 1 - ?lo + 1)) (drop (nat ?lo) ?sel))"
    by blast
  let ?page = "take (nat (?lo + q_limit q - 1 - ?lo + 1)) (drop (nat ?lo) ?sel)"
  have "length ?page \<le> nat (q_limit q)" by simp
  moreover have "set ?page \<subseteq> set (filter (owned_by userId) rows)"
    using selected_subset [of ext q "filter (owned_by userId) rows"]
    by (auto dest!: in_set_takeD in_set_dropD)
  ultimately show ?thesis using pls by blast
qed

lemma get_notes_items_rows:
  assumes "item \<in> set (items_of (get_notes ext w userId q))"
  shows "\<exists>rows row. posts_tbl w = Inr rows \<and> row \<in> set rows \<and> owned_by userId row
           \<and> (item = JObj (simple_transform row)
               \<or> (\<exists>pls. post_labels_tbl w = Inr pls \<and> embed_fault w = None
                     \<and> item = JObj (transform_list (embed_post pls w row))))"
proof (cases "posts_tbl w")
  case (Inl e)
  with assms show ?thesis
    by (auto simp: get_notes_def Let_def split: if_splits)
next
  case (Inr rows)
  let ?mine = "filter (owned_by userId) rows"
  show ?thesis
  proof (cases "joined_query ext w userId q rows")
    case (Inl e)
    with assms Inr have "item \<in> JObj ` simple_transform ` set (order_created_desc ?mine)"
      by (auto simp: get_notes_def Let_def split: if_splits)
    then obtain row where "row \<in> set ?mine" "item = JObj (simple_transform row)"
      by (auto simp: order_created_desc_def)
    with Inr show ?thesis by auto
  next
    case data: (Inr data)
    from joined_query_rows [OF data] obtain pls page where pls: "post_labels_tbl w = Inr pls"
      "embed_fault w = None" "data = map (embed_post pls w) page" "set page \<subseteq> set ?mine"
      by blast
    show ?thesis
    proof (cases "label_filter ext q (map transform_list data)")
      case err: (Inl err)
      with assms Inr data show ?thesis
        by (auto simp: get_notes_def Let_def)
    next
      case filtered: (Inr filtered)
      with assms Inr data have "item \<in> JObj ` set filtered"
        by (auto simp: get_notes_def Let_def)
      with label_filter_subset [OF filtered] have "item \<in> JObj ` transform_list ` set data"
        by auto
      then obtain row where row: "row \<in> set page" "item = JObj (transform_list (embed_post pls w row))"
        unfolding pls(3) by auto
      from row(1) pls(4) have "row \<in> set ?mine" by blast
      with row(2) Inr pls show ?thesis by auto
    qed
  qed
qed

lemma get_notes_joined_page_length:
  assumes "posts_tbl w = Inr rows" and "joined_query ext w userId q rows = Inr data"
  shows "length (items_of (get_notes ext w userId q)) \<le> nat (q_limit q)"
proof -
  from joined_query_rows [OF assms(2)] have len: "length data \<le> nat (q_limit q)"
    by auto
  show ?thesis
  proof (cases "label_filter ext q (map transform_list data)")
    case (Inl err)
    with assms show ?thesis
      by (auto simp: get_notes_def Let_def)
  next
    case (Inr filtered)
    with label_filter_subset [OF Inr] len have "length filtered \<le> nat (q_limit q)" by simp
    with Inr assms show ?thesis
      by (auto simp: get_notes_def Let_def)
  qed
qed

text \<open>
  C8: when the existence probe fails with the table-absent signature, \<open>GET /api/notes\<close>
  answers 200 with an empty data array and the pagination of an empty first page, and the
  body carries no error.
\<close>

theorem C8_table_absent_gives_empty_page:
  assumes "posts_tbl w = Inl e"
    and "js_includes (message e) ''Could not find the table''"
  shows "status (get_notes ext w userId q) = 200
       \<and> get_prop (body (get_notes ext w userId q)) ''data'' = JArr []
       \<and> get_prop (body (get_notes ext w userId q)) ''pagination''
           = JObj [(''currentPage'', JNum 1), (''totalPages'', JNum 0), (''totalCount'', JNum 0),
                   (''limit'', JNum (q_limit q)), (''hasNextPage'', JBool False),
                   (''hasPrevPage'', JBool False)]
       \<and> get_prop (body (get_notes ext w userId q)) ''error'' = JUndefined"
  using assms
  by (simp add: get_notes_def page_body_def pagination_def fld_def)

theorem C8_table_absent_gives_empty_page_witness:
  "status (get_notes sample_ext tableless_world ''u1'' (sample_query 3 12)) = 200
   \<and> get_prop (body (get_notes sample_ext tableless_world ''u1'' (sample_query 3 12))) ''data''
       = JArr []
   \<and> get_prop (body (get_notes sample_ext tableless_world ''u1'' (sample_query 3 12)))
         ''pagination''
       = JObj [(''currentPage'', JNum 1), (''totalPages'', JNum 0), (''totalCount'', JNum 0),
               (''limit'', JNum 12), (''hasNextPage'', JBool False),
               (''hasPrevPage'', JBool False)]"
proof -
  have 1: "posts_tbl tableless_world
             = Inl (DbError ''PGRST205'' ''Could not find the table public.posts in the schema cache'')"
    by (simp add: tableless_world_def empty_world_def)
  have 2: "js_includes
             (message (DbError ''PGRST205''
                ''Could not find the table public.posts in the schema cache''))
             ''Could not find the table''"
    by simp
  from C8_table_absent_gives_empty_page [OF 1 2, of sample_ext "''u1''" "sample_query 3 12"]
  show ?thesis by (simp add: sample_query_def)
qed

lemma simple_transform_fields:
  "fld (simple_transform post) ''labels'' = JArr []"
  "fld (simple_transform post) ''category'' = JNull"
  "fld (simple_transform post) ''encrypted_content'' = JUndefined"
  by (simp_all add: simple_transform_def fld_update)

lemma joined_query_fault:
  "embed_fault w = Some e \<Longrightarrow> joined_query ext w userId q rows = Inl e"
  by (simp add: joined_query_def select_page_def Let_def)

lemma get_notes_flat:
  assumes "posts_tbl w = Inr rows"
    and "joined_query ext w userId q rows = Inl e"
    and "js_includes (message e) ''Could not find a relationship''"
  shows "get_notes ext w userId q
      = Response 200
          (page_body (map simple_transform (order_created_desc (filter (owned_by userId) rows)))
             (pagination (JNum (q_page q))
                (num_json (ceil_div (length (order_created_desc (filter (owned_by userId) rows)))
                             (q_limit q)))
                (JNum (int (length (order_created_desc (filter (owned_by userId) rows)))))
                (JNum (q_limit q))
                (less_num (q_page q)
                   (ceil_div (length (order_created_desc (filter (owned_by userId) rows)))
                      (q_limit q)))
                (q_page q > 1)))"
  using assms
  by (simp add: get_notes_def Let_def)

text \<open>
  C10: when the joined query fails with the relationship-unresolved signature, the answer
  is built from the flat query alone: whatever the filters, the page and the limit of the
  request, the data are all the notes of the owner (the same notes, as a multiset), newest
  first, each with \<open>labels\<close> \<open>[]\<close> and \<open>category\<close> null.
\<close>

theorem C10_flat_query_drops_filters_and_range:
  assumes "posts_tbl w = Inr rows"
    and "joined_query ext w userId q rows = Inl e"
    and "js_includes (message e) ''Could not find a relationship''"
  shows "status (get_notes ext w userId q) = 200
       \<and> items_of (get_notes ext w userId q)
           = map (\<lambda>post. JObj (simple_transform post))
               (order_created_desc (filter (owned_by userId) rows))
       \<and> mset (order_created_desc (filter (owned_by userId) rows))
           = mset (filter (owned_by userId) rows)
       \<and> sorted (map (\<lambda>r. - created_ts r) (order_created_desc (filter (owned_by userId) rows)))
       \<and> length (items_of (get_notes ext w userId q)) = length (filter (owned_by userId) rows)
       \<and> list_all (\<lambda>item. get_prop item ''labels'' = JArr [] \<and> get_prop item ''category'' = JNull)
           (items_of (get_notes ext w userId q))"
proof -
  note r = get_notes_flat [OF assms]
  show ?thesis
    unfolding r
    by (simp add: order_created_desc_def list_all_iff simple_transform_fields comp_def)
qed

theorem C10_flat_query_drops_filters_and_range_witness:
  "status (get_notes sample_ext unrelated_world ''u1''
       \<lparr>q_category = Some ''7'', q_labels = Some ''1,2'', q_search = Some ''zzz'',
        q_drafts = Some ''true'', q_visibility = Some ''private'', q_page = 2, q_limit = 1\<rparr>)
     = 200
   \<and> items_of (get_notes sample_ext unrelated_world ''u1''
       \<lparr>q_category = Some ''7'', q_labels = Some ''1,2'', q_search = Some ''zzz'',
        q_drafts = Some ''true'', q_visibility = Some ''private'', q_page = 2, q_limit = 1\<rparr>)
     = [JObj (simple_transform note3), JObj (simple_transform note2),
        JObj (simple_transform note1)]"
proof -
  have a: "posts_tbl unrelated_world = Inr [note1, note2, note3, note4]"
    by (simp add: unrelated_world_def notes_world_def empty_world_def)
  have b: "embed_fault unrelated_world
             = Some (DbError ''PGRST200''
                 ''Could not find a relationship between posts and categories in the schema cache'')"
    by (simp add: unrelated_world_def notes_world_def empty_world_def)
  have c: "js_includes
             (message (DbError ''PGRST200''
                 ''Could not find a relationship between posts and categories in the schema cache''))
             ''Could not find a relationship''"
    by simp
  from C10_flat_query_drops_filters_and_range
      [OF a joined_query_fault [OF b] c, of sample_ext "''u1''"
      "\<lparr>q_category = Some ''7'', q_labels = Some ''1,2'', q_search = Some ''zzz'',
        q_drafts = Some ''true'', q_visibility = Some ''private'', q_page = 2, q_limit = 1\<rparr>",
      unfolded mine_u1 order_u1]
  show ?thesis by simp
qed

text \<open>The pagination of the listing: on the joined path and on the table-absent path a page has at
  most \<open>limit\<close> items, and on every path the two flags of a 200 response agree with the
  current page and the number of pages that the response reports.\<close>

lemma pagination_fields:
  "get_prop (pagination cp tp tc l n p) ''currentPage'' = cp"
  "get_prop (pagination cp tp tc l n p) ''totalPages'' = tp"
  "get_prop (pagination cp tp tc l n p) ''hasNextPage'' = JBool n"
  "get_prop (pagination cp tp tc l n p) ''hasPrevPage'' = JBool p"
  by (simp_all add: pagination_def fld_def)

lemma get_notes_table_absent_length:
  "posts_tbl w = Inl e \<Longrightarrow> items_of (get_notes ext w userId q) = []"
  by (simp add: get_notes_def Let_def)

lemma get_notes_page_flags:
  assumes "0 < q_limit q" and "status (get_notes ext w userId q) = 200"
  shows "\<exists>cp tp. page_field (get_notes ext w userId q) ''currentPage'' = JNum cp
           \<and> page_field (get_notes ext w userId q) ''totalPages'' = JNum tp
           \<and> page_field (get_notes ext w userId q) ''hasNextPage'' = JBool (cp < tp)
           \<and> page_field (get_notes ext w userId q) ''hasPrevPage'' = JBool (1 < cp)"
proof (cases "posts_tbl w")
  case (Inl e)
  with assms(2) show ?thesis
    by (auto simp: get_notes_def Let_def pagination_fields split: if_splits)
next
  case (Inr rows)
  have c: "ceil_div n (q_limit q) = Fin (- ((- int n) div q_limit q))" for n
    using assms(1) by (simp add: ceil_div_def)
  show ?thesis
  proof (cases "joined_query ext w userId q rows")
    case (Inl e)
    with assms Inr show ?thesis
      by (auto simp: get_notes_def Let_def c pagination_fields split: if_splits)
  next
    case data: (Inr data)
    with assms Inr show ?thesis
      by (cases "label_filter ext q (map transform_list data)")
         (auto simp: get_notes_def Let_def c pagination_fields)
  qed
qed

text \<open>
  C5 (on every path of \<open>GET /api/notes\<close> a response with a positive limit has at most
  \<open>limit\<close> items, and its flags are \<open>page < totalPages\<close> and \<open>page > 1\<close>) does not hold
  on the relationship-degraded path, where the bound on the items fails: the flat query
  has no range, so with three notes and \<open>limit = 2\<close> the first page carries all three,
  while its metadata announces two pages and a next page.
\<close>

theorem C5_flat_page_exceeds_limit:
  "status (get_notes sample_ext unrelated_world ''u1'' (sample_query 1 2)) = 200
   \<and> items_of (get_notes sample_ext unrelated_world ''u1'' (sample_query 1 2))
       = [JObj (simple_transform note3), JObj (simple_transform note2),
          JObj (simple_transform note1)]
   \<and> length (items_of (get_notes sample_ext unrelated_world ''u1'' (sample_query 1 2))) = 3
   \<and> page_field (get_notes sample_ext unrelated_world ''u1'' (sample_query 1 2)) ''limit''
       = JNum 2
   \<and> page_field (get_notes sample_ext unrelated_world ''u1'' (sample_query 1 2)) ''totalPages''
       = JNum 2
   \<and> page_field (get_notes sample_ext unrelated_world ''u1'' (sample_query 1 2)) ''hasNextPage''
       = JBool True"
proof -
  have a: "posts_tbl unrelated_world = Inr [note1, note2, note3, note4]"
    by (simp add: unrelated_world_def notes_world_def empty_world_def)
  have b: "embed_fault unrelated_world
             = Some (DbError ''PGRST200''
                 ''Could not find a relationship between posts and categories in the schema cache'')"
    by (simp add: unrelated_world_def notes_world_def empty_world_def)
  have c: "js_includes
             (message (DbError ''PGRST200''
                 ''Could not find a relationship between posts and categories in the schema cache''))
             ''Could not find a relationship''"
    by simp
  note r = get_notes_flat [OF a joined_query_fault [OF b] c,
      of sample_ext "''u1''" "sample_query 1 2", unfolded mine_u1 order_u1]
  show ?thesis
    unfolding r
    by (simp add: sample_query_def ceil_div_def pagination_def fld_def)
qed

section \<open>Properties of the note transformer\<close>

lemma single_Inr: "single res = Inr d \<longleftrightarrow> res = Inr [d]"
  by (auto simp: single_def split: sum.splits list.splits)

lemma select_embedded_Inr:
  "select_embedded w xs = Inr ys \<longleftrightarrow>
     (\<exists>pls. post_labels_tbl w = Inr pls \<and> embed_fault w = None \<and> ys = map (embed_post pls w) xs)"
  by (auto simp: select_embedded_def split: option.splits sum.splits)

lemma get_note_found:
  assumes "get_note w userId nid = Response 200 b"
  shows "\<exists>rows pls row. posts_tbl w = Inr rows \<and> post_labels_tbl w = Inr pls
           \<and> embed_fault w = None
           \<and> filter (\<lambda>r. has_id nid r \<and> owned_by userId r) rows = [row]
           \<and> b = JObj (transform_view (embed_post pls w row))"
proof (cases "posts_tbl w")
  case (Inl e)
  with assms show ?thesis by (simp add: get_note_def)
next
  case (Inr rows)
  let ?sel = "filter (\<lambda>r. has_id nid r \<and> owned_by userId r) rows"
  from assms Inr obtain d where d: "single (select_embedded w ?sel) = Inr d"
    "b = JObj (transform_view d)"
    by (auto simp: get_note_def split: sum.splits)
  from d(1) obtain pls where pls: "post_labels_tbl w = Inr pls" "embed_fault w = None"
    "[d] = map (embed_post pls w) ?sel"
    by (auto simp: single_Inr select_embedded_Inr)
  from pls(3) obtain row where "?sel = [row]" "d = embed_post pls w row"
    by (cases ?sel) auto
  with Inr pls d(2) show ?thesis by auto
qed

lemma get_note_eval:
  assumes "posts_tbl w = Inr rows" and "post_labels_tbl w = Inr pls" and "embed_fault w = None"
    and "filter (\<lambda>r. has_id nid r \<and> owned_by userId r) rows = [row]"
  shows "get_note w userId nid = Response 200 (JObj (transform_view (embed_post pls w row)))"
  using assms by (simp add: get_note_def select_embedded_def single_def)

lemma public_note_found:
  assumes "public_note w token = Response 200 b"
  shows "\<exists>rows pls row. posts_tbl w = Inr rows \<and> post_labels_tbl w = Inr pls
           \<and> embed_fault w = None
           \<and> filter (\<lambda>r. fld r ''public_share_token'' = JStr token
                         \<and> fld r ''is_public'' = JBool True) rows = [row]
           \<and> b = JObj (transform_view (pick public_columns (embed_post pls w row)))"
proof (cases "posts_tbl w")
  case (Inl e)
  with assms show ?thesis by (simp add: public_note_def)
next
  case (Inr rows)
  let ?sel = "filter (\<lambda>r. fld r ''public_share_token'' = JStr token
                         \<and> fld r ''is_public'' = JBool True) rows"
  from assms Inr obtain d where d: "single (select_embedded w ?sel) = Inr d"
    "b = JObj (transform_view (pick public_columns d))"
    by (auto simp: public_note_def split: sum.splits)
  from d(1) obtain pls where pls: "post_labels_tbl w = Inr pls" "embed_fault w = None"
    "[d] = map (embed_post pls w) ?sel"
    by (auto simp: single_Inr select_embedded_Inr)
  from pls(3) obtain row where "?sel = [row]" "d = embed_post pls w row"
    by (cases ?sel) auto
  with Inr pls d(2) show ?thesis by auto
qed

lemma public_note_eval:
  assumes "posts_tbl w = Inr rows" and "post_labels_tbl w = Inr pls" and "embed_fault w = None"
    and "filter (\<lambda>r. fld r ''public_share_token'' = JStr token
                       \<and> fld r ''is_public'' = JBool True) rows = [row]"
  shows "public_note w token
           = Response 200 (JObj (transform_view (pick public_columns (embed_post pls w row))))"
  using assms by (simp add: public_note_def select_embedded_def single_def)

lemma public_view_fields:
  "fld (transform_view (pick public_columns (embed_post pls w row))) ''display_date''
     = fld row ''created_at''"
  "fld (transform_view (pick public_columns (embed_post pls w row))) ''date_type''
     = JStr ''created''"
  "fld (transform_view (pick public_columns (embed_post pls w row))) ''encrypted_content''
     = JUndefined"
  by (simp_all add: fld_transform_view fld_pick fld_embed_post public_columns_def
        display_date_def date_type_def)

lemma single_view_fields:
  "fld (transform_view (embed_post pls w row)) ''display_date'' = display_date row"
  "fld (transform_view (embed_post pls w row)) ''date_type'' = date_type row"
  "fld (transform_view (embed_post pls w row)) ''encrypted_content''
     = fld row ''encrypted_content''"
  by (simp_all add: fld_transform_view fld_embed_post)

lemma list_view_fields:
  "fld (transform_list (embed_post pls w row)) ''display_date'' = display_date row"
  "fld (transform_list (embed_post pls w row)) ''date_type'' = date_type row"
  "fld (transform_list (embed_post pls w row)) ''encrypted_content'' = JUndefined"
  "fld (simple_transform row) ''display_date'' = display_date row"
  "fld (simple_transform row) ''date_type'' = date_type row"
  by (simp_all add: fld_transform_list fld_transform_view fld_embed_post fld_simple_transform)

text \<open>The date fields: in the list view and in the single-note view the two date fields
  follow the updated flag of the stored note.\<close>

lemma list_view_dates:
  assumes "item \<in> set (items_of (get_notes ext w userId q))"
  shows "\<exists>rows row. posts_tbl w = Inr rows \<and> row \<in> set rows \<and> owned_by userId row
           \<and> get_prop item ''id'' = fld row ''id''
           \<and> get_prop item ''display_date'' = display_date row
           \<and> get_prop item ''date_type'' = date_type row"
proof -
  from get_notes_items_rows [OF assms] obtain rows row where
    r: "posts_tbl w = Inr rows" "row \<in> set rows" "owned_by userId row"
    and "item = JObj (simple_transform row)
         \<or> (\<exists>pls. item = JObj (transform_list (embed_post pls w row)))"
    by blast
  then have "get_prop item ''id'' = fld row ''id''
      \<and> get_prop item ''display_date'' = display_date row
      \<and> get_prop item ''date_type'' = date_type row"
    by (auto simp: list_view_fields fld_transform_list fld_transform_view fld_embed_post
        fld_simple_transform)
  with r show ?thesis by blast
qed

lemma single_view_dates:
  assumes "get_note w userId nid = Response 200 b"
  shows "\<exists>rows row. posts_tbl w = Inr rows \<and> row \<in> set rows \<and> owned_by userId row
           \<and> has_id nid row
           \<and> get_prop b ''display_date'' = display_date row
           \<and> get_prop b ''date_type'' = date_type row"
proof -
  from get_note_found [OF assms] obtain rows pls row where
    r: "posts_tbl w = Inr rows"
       "filter (\<lambda>r. has_id nid r \<and> owned_by userId r) rows = [row]"
       "b = JObj (transform_view (embed_post pls w row))"
    by blast
  from r(2) have "row \<in> set (filter (\<lambda>r. has_id nid r \<and> owned_by userId r) rows)" by simp
  then have "row \<in> set rows" "has_id nid row" "owned_by userId row" by auto
  with r show ?thesis by (auto simp: single_view_fields)
qed

lemma public_view_dates:
  assumes "public_note w token = Response 200 b"
  shows "get_prop b ''date_type'' = JStr ''created''
       \<and> get_prop b ''display_date'' = get_prop b ''created_at''"
proof -
  from public_note_found [OF assms] obtain pls row where
    "b = JObj (transform_view (pick public_columns (embed_post pls w row)))"
    by blast
  then show ?thesis
    by (simp add: fld_transform_view fld_pick fld_embed_post public_columns_def
        display_date_def date_type_def)
qed

lemma public_share2:
  "public_note notes_world ''share2''
     = Response 200 (JObj (transform_view (pick public_columns (embed_post [] notes_world note2))))"
proof (rule public_note_eval)
  show "posts_tbl notes_world = Inr [note1, note2, note3, note4]"
    by (simp add: notes_world_def empty_world_def)
  show "post_labels_tbl notes_world = Inr []"
    by (simp add: notes_world_def empty_world_def)
  show "embed_fault notes_world = None"
    by (simp add: notes_world_def empty_world_def)
  show "filter (\<lambda>r. fld r ''public_share_token'' = JStr ''share2''
                    \<and> fld r ''is_public'' = JBool True) [note1, note2, note3, note4] = [note2]"
    by (simp add: fld_def note1_def note2_def note3_def note4_def)
qed

lemma single_note2:
  "get_note notes_world ''u1'' 2
     = Response 200 (JObj (transform_view (embed_post [] notes_world note2)))"
proof (rule get_note_eval)
  show "posts_tbl notes_world = Inr [note1, note2, note3, note4]"
    by (simp add: notes_world_def empty_world_def)
  show "post_labels_tbl notes_world = Inr []"
    by (simp add: notes_world_def empty_world_def)
  show "embed_fault notes_world = None"
    by (simp add: notes_world_def empty_world_def)
  show "filter (\<lambda>r. has_id 2 r \<and> owned_by ''u1'' r) [note1, note2, note3, note4] = [note2]"
    by (simp add: fld_def has_id_def owned_by_def note1_def note2_def note3_def note4_def)
qed

lemma note2_fields:
  "fld note2 ''is_updated'' = JBool True"
  "fld note2 ''updated_at'' = JNum 250"
  "fld note2 ''created_at'' = JNum 200"
  "fld note2 ''encrypted_content'' = JStr ''ciphertext''"
  "fld note2 ''is_encrypted'' = JBool True"
  "fld note2 ''is_public'' = JBool True"
  "fld note2 ''public_share_token'' = JStr ''share2''"
  "fld note2 ''user_id'' = JStr ''u1''"
  by (simp_all add: note2_def fld_def)

text \<open>
  C6 (the date fields follow the updated flag in the list, single-note and public views
  alike) does not hold in the public view. Its select names the columns it reads and
  \<open>is_updated\<close> is not among them, so \<open>data.is_updated\<close> is undefined there: the edited
  public note is shown with its creation date and \<open>created\<close>, while the single-note view
  of the same note shows the update date and \<open>updated\<close>.
\<close>

theorem C6_public_view_ignores_updated_flag:
  "fld note2 ''is_updated'' = JBool True
   \<and> fld note2 ''created_at'' = JNum 200
   \<and> fld note2 ''updated_at'' = JNum 250
   \<and> status (public_note notes_world ''share2'') = 200
   \<and> get_prop (body (public_note notes_world ''share2'')) ''display_date'' = JNum 200
   \<and> get_prop (body (public_note notes_world ''share2'')) ''date_type'' = JStr ''created''
   \<and> get_prop (body (get_note notes_world ''u1'' 2)) ''display_date'' = JNum 250
   \<and> get_prop (body (get_note notes_world ''u1'' 2)) ''date_type'' = JStr ''updated''"
  unfolding public_share2 single_note2
  by (simp add: public_view_fields single_view_fields note2_fields display_date_def
      date_type_def)

text \<open>
  C7, as the code has it: every item of a list response omits \<open>encrypted_content\<close>, whatever the
  encryption flag and on every path of the listing; the single-note view carries the
  \<open>encrypted_content\<close> of the stored note verbatim; the public view never carries
  \<open>encrypted_content\<close>, since its select does not read that column.
\<close>

theorem C7_encrypted_content_by_view:
  "list_all (\<lambda>item. ''encrypted_content'' \<notin> set (json_keys item))
     (items_of (get_notes ext w userId q))
   \<and> (\<forall>b. get_note w userId nid = Response 200 b \<longrightarrow>
         (\<exists>rows row. posts_tbl w = Inr rows
            \<and> filter (\<lambda>r. has_id nid r \<and> owned_by userId r) rows = [row]
            \<and> get_prop b ''encrypted_content'' = fld row ''encrypted_content''))
   \<and> ''encrypted_content'' \<notin> set (json_keys (body (public_note w token)))"
proof (intro conjI allI impI)
  show "list_all (\<lambda>item. ''encrypted_content'' \<notin> set (json_keys item))
          (items_of (get_notes ext w userId q))"
    unfolding list_all_iff
  proof
    fix item
    assume "item \<in> set (items_of (get_notes ext w userId q))"
    from get_notes_items_rows [OF this] obtain row where
      "item = JObj (simple_transform row)
       \<or> (\<exists>pls. item = JObj (transform_list (embed_post pls w row)))"
      by blast
    then show "''encrypted_content'' \<notin> set (json_keys item)"
      by (auto simp: json_keys_iff fld_simple_transform fld_transform_list)
  qed
next
  fix b
  assume "get_note w userId nid = Response 200 b"
  from get_note_found [OF this] show "\<exists>rows row. posts_tbl w = Inr rows
            \<and> filter (\<lambda>r. has_id nid r \<and> owned_by userId r) rows = [row]
            \<and> get_prop b ''encrypted_content'' = fld row ''encrypted_content''"
    by (auto simp: single_view_fields)
next
  show "''encrypted_content'' \<notin> set (json_keys (body (public_note w token)))"
  proof (cases "public_note w token")
    case (Response st b)
    show ?thesis
    proof (cases "st = 200")
      case True
      with Response public_note_found [of w token b] show ?thesis
        by (auto simp: json_keys_iff public_view_fields)
    next
      case False
      with Response have "b = error_body ''Public note not found''"
        by (auto simp: public_note_def split: sum.splits)
      with Response show ?thesis
        by (simp add: error_body_def json_keys_iff fld_def)
    qed
  qed
qed

theorem C7_encrypted_content_by_view_witness:
  "list_all (\<lambda>item. ''encrypted_content'' \<notin> set (json_keys item))
     (items_of (get_notes sample_ext notes_world ''u1'' (sample_query 1 12)))
   \<and> get_prop (body (get_note notes_world ''u1'' 2)) ''encrypted_content'' = JStr ''ciphertext''
   \<and> ''encrypted_content'' \<notin> set (json_keys (body (public_note notes_world ''share2'')))"
proof -
  note c7 = C7_encrypted_content_by_view
    [of sample_ext notes_world "''u1''" "sample_query 1 12" 2 "''share2''"]
  have rows: "posts_tbl notes_world = Inr [note1, note2, note3, note4]"
    by (simp add: notes_world_def empty_world_def)
  have sel: "filter (\<lambda>r. has_id 2 r \<and> owned_by ''u1'' r) [note1, note2, note3, note4] = [note2]"
    by (simp add: fld_def has_id_def owned_by_def note1_def note2_def note3_def note4_def)
  from c7 single_note2 obtain rows' row where
    "posts_tbl notes_world = Inr rows'"
    "filter (\<lambda>r. has_id 2 r \<and> owned_by ''u1'' r) rows' = [row]"
    "get_prop (body (get_note notes_world ''u1'' 2)) ''encrypted_content''
       = fld row ''encrypted_content''"
    by auto
  with rows sel have "get_prop (body (get_note notes_world ''u1'' 2)) ''encrypted_content''
       = JStr ''ciphertext''"
    by (simp add: note2_fields)
  with c7 show ?thesis by simp
qed

text \<open>
  As the spec states it, the public view includes \<open>encrypted_content\<close> verbatim whenever
  the note has one. That is not what the handler does: the public view of the encrypted public note has no
  \<open>encrypted_content\<close> at all.
\<close>

theorem C7_public_view_counterexample:
  "fld note2 ''encrypted_content'' = JStr ''ciphertext''
   \<and> status (public_note notes_world ''share2'') = 200
   \<and> get_prop (body (public_note notes_world ''share2'')) ''encrypted_content'' = JUndefined
   \<and> ''encrypted_content'' \<notin> set (json_keys (body (public_note notes_world ''share2'')))"
  unfolding public_share2
  by (simp add: public_view_fields note2_fields json_keys_iff)

section \<open>Properties of the write handlers\<close>

lemma fld_fold_update:
  "fld (fold (\<lambda>kv r. AList.update (fst kv) (snd kv) r) ps r) k
     = (case map_of (rev ps) k of None \<Rightarrow> fld r k | Some v \<Rightarrow> v)"
proof (induction ps arbitrary: r)
  case Nil
  then show ?case by simp
next
  case (Cons p ps)
  show ?case
    by (cases p) (auto simp: Cons.IH fld_update map_add_def split: option.splits)
qed

lemma fld_apply_patch:
  "fld (apply_patch patch row) k
     = (case map_of (rev (json_drop patch)) k of None \<Rightarrow> fld row k | Some v \<Rightarrow> v)"
  by (simp add: apply_patch_def fld_fold_update)

lemma world_posts_same [simp]: "posts_tbl w = Inr rows \<Longrightarrow> w\<lparr>posts_tbl := Inr rows\<rparr> = w"
  by (cases w) auto

lemma posts_update_none:
  assumes "posts_tbl w = Inr rows" and "filter sel rows = []"
  shows "posts_update sel patch w = (Inr [], w)"
proof -
  from assms(2) have "\<forall>r \<in> set rows. \<not> sel r" by (simp add: filter_empty_conv)
  then have "map (\<lambda>r. if sel r then apply_patch patch r else r) rows = rows"
    by (induction rows) auto
  with assms show ?thesis by (simp add: posts_update_def)
qed

lemma posts_delete_none:
  assumes "posts_tbl w = Inr rows" and "filter sel rows = []"
  shows "posts_delete sel w = (None, w)"
proof -
  from assms(2) have "\<forall>r \<in> set rows. \<not> sel r" by (simp add: filter_empty_conv)
  then have "filter (\<lambda>r. \<not> sel r) rows = rows" by simp
  with assms show ?thesis by (simp add: posts_delete_def)
qed

text \<open>Ownership: a write to a note that is not the caller's leaves the store as it
  was; the update, autosave, visibility and publish handlers answer 404, and the delete
  handler answers 200.\<close>

lemma foreign_note_untouched:
  assumes "posts_tbl w = Inr rows"
    and "filter (\<lambda>r. has_id nid r \<and> owned_by userId r) rows = []"
  shows "update_note ext now w userId nid reqbody
           = (Response 404 (error_body ''Note not found or access denied''), w)"
    and "autosave_note now w userId nid reqbody
           = (Response 404 (error_body ''Note not found or access denied''), w)"
    and "set_visibility now rand w userId nid reqbody
           = (Response 404 (error_body ''Note not found or access denied''), w)"
    and "publish_note now w userId nid
           = (Response 404 (error_body ''Draft not found or access denied''), w)"
    and "delete_note w userId nid
           = (Response 200 (JObj [(''message'', JStr ''Note deleted successfully'')]), w)"
proof -
  note u = posts_update_none [OF assms]
  show "update_note ext now w userId nid reqbody
           = (Response 404 (error_body ''Note not found or access denied''), w)"
    by (simp add: update_note_def u)
  show "autosave_note now w userId nid reqbody
           = (Response 404 (error_body ''Note not found or access denied''), w)"
    by (simp add: autosave_note_def u)
  show "set_visibility now rand w userId nid reqbody
           = (Response 404 (error_body ''Note not found or access denied''), w)"
    by (simp add: set_visibility_def u)
  from assms(2) have "filter (\<lambda>r. has_id nid r \<and> owned_by userId r
                                 \<and> fld r ''is_draft'' = JBool True) rows = []"
    by (auto simp: filter_empty_conv)
  from posts_update_none [OF assms(1) this]
  show "publish_note now w userId nid
           = (Response 404 (error_body ''Draft not found or access denied''), w)"
    by (simp add: publish_note_def)
  show "delete_note w userId nid
           = (Response 200 (JObj [(''message'', JStr ''Note deleted successfully'')]), w)"
    by (simp add: delete_note_def posts_delete_none [OF assms])
qed

lemma notes_world_rows: "posts_tbl notes_world = Inr [note1, note2, note3, note4]"
  by (simp add: notes_world_def empty_world_def)

lemma note4_foreign:
  "filter (\<lambda>r. has_id 4 r \<and> owned_by ''u1'' r) [note1, note2, note3, note4] = []"
  by (simp add: fld_def has_id_def owned_by_def note1_def note2_def note3_def note4_def)

lemma note4_fields:
  "fld note4 ''id'' = JNum 4"
  "fld note4 ''user_id'' = JStr ''u2''"
  by (simp_all add: note4_def fld_def)

text \<open>
  C3 (a mutating request against a note of another user is answered 404 and leaves the
  row unchanged) does not hold for \<open>DELETE /api/notes/:id\<close>: the note with id 4 belongs
  to \<open>u2\<close>, and the delete request of \<open>u1\<close> is answered 200 "Note deleted successfully".
  The row is left as it was; the update handler answers the same caller with 404.
\<close>

theorem C3_delete_of_foreign_note_answers_200:
  "fld note4 ''id'' = JNum 4
   \<and> fld note4 ''user_id'' = JStr ''u2''
   \<and> posts_tbl notes_world = Inr [note1, note2, note3, note4]
   \<and> delete_note notes_world ''u1'' 4
       = (Response 200 (JObj [(''message'', JStr ''Note deleted successfully'')]), notes_world)
   \<and> update_note sample_ext (JNum 500) notes_world ''u1'' 4 plain_edit
       = (Response 404 (error_body ''Note not found or access denied''), notes_world)"
  by (simp add: note4_fields notes_world_rows
      foreign_note_untouched [OF notes_world_rows note4_foreign])

lemma fld_Nil [simp]: "fld [] k = JUndefined"
  by (simp add: fld_def)

lemma fld_Cons [simp]: "fld ((k', v) # r) k = (if k = k' then v else fld r k)"
  by (simp add: fld_def)

lemma map_of_rev_distinct:
  "distinct (map fst xs) \<Longrightarrow> map_of (rev xs) k = map_of xs k"
proof (induction xs)
  case Nil
  then show ?case by simp
next
  case (Cons x xs)
  then have "map_of xs (fst x) = None"
    by (simp add: map_of_eq_None_iff)
  with Cons show ?case
    by (cases x) (auto simp: map_add_def split: option.splits)
qed

lemma map_of_json_drop:
  "map_of (json_drop patch) k = (if fld patch k \<noteq> JUndefined then map_of patch k else None)"
proof -
  have "map_of (filter (\<lambda>kv. P (fst kv)) r) k = (if P k then map_of r k else None)" for P r
    by (induction r) auto
  from this [of "\<lambda>k. fld patch k \<noteq> JUndefined" patch] show ?thesis
    by (simp add: json_drop_def)
qed

lemma fld_apply_patch_distinct:
  assumes "distinct (map fst patch)"
  shows "fld (apply_patch patch row) k
           = (if fld patch k \<noteq> JUndefined then fld patch k else fld row k)"
proof -
  have d: "distinct (map fst (json_drop patch))"
    using assms by (simp add: json_drop_def distinct_map_filter)
  have e: "fld (apply_patch patch row) k
             = (case map_of (json_drop patch) k of None \<Rightarrow> fld row k | Some v \<Rightarrow> v)"
    by (simp add: fld_apply_patch map_of_rev_distinct [OF d])
  show ?thesis
  proof (cases "fld patch k = JUndefined")
    case True
    then show ?thesis by (simp add: e map_of_json_drop)
  next
    case False
    then obtain v where "map_of patch k = Some v" "fld patch k = v"
      by (auto simp: fld_def split: option.splits)
    with False show ?thesis by (simp add: e map_of_json_drop)
  qed
qed

lemma patch_keys_distinct:
  "distinct (map fst (autosave_patch now reqbody))"
  "distinct (map fst (create_row userId now rand reqbody))"
  "distinct (map fst (update_patch now reqbody))"
  by (simp_all add: autosave_patch_def create_row_def update_patch_def Let_def)

text \<open>Content and encrypted content: the create and autosave handlers never leave both \<open>content\<close> and
  \<open>encrypted_content\<close> populated, whatever the row held before; the update handler writes
  \<open>content\<close> and leaves \<open>encrypted_content\<close> and the encryption flag as they were.\<close>

lemma autosave_exclusive:
  "\<not> (populated (fld (apply_patch (autosave_patch now reqbody) row) ''content'')
      \<and> populated (fld (apply_patch (autosave_patch now reqbody) row) ''encrypted_content''))"
  by (simp add: fld_apply_patch_distinct patch_keys_distinct)
     (simp add: autosave_patch_def populated_def Let_def)

lemma create_exclusive:
  "\<not> (populated (fld (apply_patch (create_row userId now rand reqbody) row) ''content'')
      \<and> populated (fld (apply_patch (create_row userId now rand reqbody) row)
                      ''encrypted_content''))"
  by (simp add: fld_apply_patch_distinct patch_keys_distinct)
     (simp add: create_row_def populated_def Let_def)

lemma update_keeps_encryption:
  "fld (apply_patch (update_patch now reqbody) row) ''encrypted_content''
     = fld row ''encrypted_content''"
  "fld (apply_patch (update_patch now reqbody) row) ''is_encrypted'' = fld row ''is_encrypted''"
  "fld (apply_patch (update_patch now reqbody) row) ''id'' = fld row ''id''"
  "fld (apply_patch (update_patch now reqbody) row) ''content''
     = (if fld reqbody ''content'' = JUndefined then fld row ''content''
        else fld reqbody ''content'')"
  by (simp_all add: fld_apply_patch_distinct patch_keys_distinct)
     (simp_all add: update_patch_def)

lemma posts_update_eval:
  "posts_tbl w = Inr rows \<Longrightarrow>
   posts_update sel patch w
     = (Inr (map (apply_patch patch) (filter sel rows)),
        w\<lparr>posts_tbl := Inr (map (\<lambda>r. if sel r then apply_patch patch r else r) rows)\<rparr>)"
  by (simp add: posts_update_def)

lemma refetch_eval:
  assumes "posts_tbl w = Inr rows" and "filter (\<lambda>r. fld r ''id'' = pid) rows = [row]"
    and "post_labels_tbl w = Inr pls" and "embed_fault w = None"
  shows "refetch ok pid w = Response ok (JObj (transform_view (embed_post pls w row)))"
  using assms by (simp add: refetch_def select_embedded_def single_def)

lemma update_note_eval:
  assumes "posts_update (\<lambda>r. has_id nid r \<and> owned_by userId r) (update_patch now reqbody) w
             = (Inr (d # ds), w1)"
    and "fld reqbody ''label_ids'' = JUndefined"
  shows "update_note ext now w userId nid reqbody = (refetch 200 (JNum nid) w1, w1)"
  using assms by (simp add: update_note_def)

lemma note2_owned:
  "filter (\<lambda>r. has_id 2 r \<and> owned_by ''u1'' r) [note1, note2, note3, note4] = [note2]"
  by (simp add: fld_def has_id_def owned_by_def note1_def note2_def note3_def note4_def)

lemma note2_selected:
  "map (\<lambda>r. if has_id 2 r \<and> owned_by ''u1'' r then f r else r) [note1, note2, note3, note4]
     = [note1, f note2, note3, note4]"
  by (simp add: fld_def has_id_def owned_by_def note1_def note2_def note3_def note4_def)

lemma other_ids:
  "fld note1 ''id'' = JNum 1" "fld note3 ''id'' = JNum 3" "fld note2 ''id'' = JNum 2"
  "fld note2 ''content'' = JNull"
  by (simp_all add: fld_def note1_def note2_def note3_def)

lemma plain_edit_fields:
  "fld plain_edit ''content'' = JStr ''new plain text''"
  "fld plain_edit ''label_ids'' = JUndefined"
  by (simp_all add: plain_edit_def fld_def)

text \<open>
  C4 (every write path keeps exactly one of \<open>content\<close> and \<open>encrypted_content\<close> populated,
  and an update of an encrypted note never leaves both populated) does not hold for
  \<open>PUT /api/notes/:id\<close>: the owner's plain-text edit of the encrypted note is answered 200
  and the row then holds the new \<open>content\<close> next to the old \<open>encrypted_content\<close>, with the
  encryption flag still set.
\<close>

theorem C4_update_leaves_both_populated:
  "fld note2 ''is_encrypted'' = JBool True
   \<and> \<not> populated (fld note2 ''content'')
   \<and> populated (fld note2 ''encrypted_content'')
   \<and> status (fst (update_note sample_ext (JNum 500) notes_world ''u1'' 2 plain_edit)) = 200
   \<and> posts_tbl (snd (update_note sample_ext (JNum 500) notes_world ''u1'' 2 plain_edit))
       = Inr [note1, apply_patch (update_patch (JNum 500) plain_edit) note2, note3, note4]
   \<and> fld (apply_patch (update_patch (JNum 500) plain_edit) note2) ''is_encrypted'' = JBool True
   \<and> fld (apply_patch (update_patch (JNum 500) plain_edit) note2) ''content''
       = JStr ''new plain text''
   \<and> fld (apply_patch (update_patch (JNum 500) plain_edit) note2) ''encrypted_content''
       = JStr ''ciphertext''
   \<and> populated (fld (apply_patch (update_patch (JNum 500) plain_edit) note2) ''content'')
   \<and> populated (fld (apply_patch (update_patch (JNum 500) plain_edit) note2)
                  ''encrypted_content'')"
proof -
  let ?row = "apply_patch (update_patch (JNum 500) plain_edit) note2"
  let ?w1 = "notes_world\<lparr>posts_tbl := Inr [note1, ?row, note3, note4]\<rparr>"
  have u: "posts_update (\<lambda>r. has_id 2 r \<and> owned_by ''u1'' r)
             (update_patch (JNum 500) plain_edit) notes_world = (Inr [?row], ?w1)"
    using posts_update_eval [OF notes_world_rows,
        of "\<lambda>r. has_id 2 r \<and> owned_by ''u1'' r" "update_patch (JNum 500) plain_edit",
        unfolded note2_owned note2_selected]
    by simp
  have ids: "fld note1 ''id'' \<noteq> JNum 2" "fld ?row ''id'' = JNum 2" "fld note3 ''id'' \<noteq> JNum 2"
    "fld note4 ''id'' \<noteq> JNum 2"
    by (simp_all add: update_keeps_encryption other_ids note4_fields)
  have sel: "filter (\<lambda>r. fld r ''id'' = JNum 2) [note1, ?row, note3, note4] = [?row]"
    using ids by simp
  have r: "refetch 200 (JNum 2) ?w1
             = Response 200 (JObj (transform_view (embed_post [] ?w1 ?row)))"
    by (rule refetch_eval [OF _ sel]) (simp_all add: notes_world_def empty_world_def)
  have upd: "update_note sample_ext (JNum 500) notes_world ''u1'' 2 plain_edit
               = (Response 200 (JObj (transform_view (embed_post [] ?w1 ?row))), ?w1)"
    using update_note_eval [OF u plain_edit_fields(2)] r by simp
  show ?thesis
    unfolding upd
    by (simp add: update_keeps_encryption note2_fields other_ids plain_edit_fields
        populated_def)
qed

end
